theory Spec2Isabelle
  imports Complex_Main "HOL-Library.Log_Nat"
begin

section \<open>Data model\<close>

text \<open>
  The development embeds two Go files: \<^verbatim>\<open>controller/task_video.go\<close> (the reconciler
  \<^verbatim>\<open>updateVideoTaskAll\<close> / \<^verbatim>\<open>updateVideoSingleTask\<close> with its settlement arithmetic) and the
  Volc Ark video adaptor (\<^verbatim>\<open>ParseTaskResult\<close>).

  Conventions.
  \<^item> Go \<^verbatim>\<open>string\<close> and \<^verbatim>\<open>[]byte\<close> are byte sequences: \<open>string\<close> (a \<open>char list\<close>); the
    Chinese message literals of the source are written as their UTF-8 bytes.
  \<^item> Go \<^verbatim>\<open>int\<close> and \<^verbatim>\<open>int64\<close> are \<open>int\<close>; the quantities involved (quotas, token counts,
    epoch seconds) are taken to stay inside 64 bits, no wrap-around is modelled.
  \<^item> A finite Go \<^verbatim>\<open>float64\<close> is the rational number it denotes (\<open>rat\<close>). Every
    float64 operation of the source is the exact operation followed by IEEE 754
    rounding to the nearest double, ties to even, subnormals included (\<open>round_f64\<close>);
    the conversion \<^verbatim>\<open>int(f)\<close> drops the fraction and, outside the 64-bit range, gives the
    value the amd64 instruction gives (\<open>go_int\<close>). The exponent range is not bounded
    above: a product of magnitude \<open>2^1024\<close> or more, which float64 turns into an
    infinity, and NaN are outside the model (\<open>f64_finite\<close> says that a value is below
    that bound).
  \<^item> Calls into the packages \<^verbatim>\<open>model\<close> (ledger, task store), \<^verbatim>\<open>ratio_setting\<close>, \<^verbatim>\<open>json\<close>
    and the clock are not part of the two files. What they return is an input of the
    model (record \<open>env\<close>); every call that changes something outside the task is
    appended to a trace of \<open>effect\<close>s together with its outcome.
  \<^item> Lines written by \<^verbatim>\<open>logger.LogInfo\<close>, \<^verbatim>\<open>logger.LogError\<close> and \<^verbatim>\<open>common.SysLog\<close>
    are operational output and do not appear in the trace.
\<close>

type_synonym TaskStatus = string

text \<open>
  Modelled from the spec: the status constants of package \<^verbatim>\<open>model\<close>
  (\<^verbatim>\<open>TaskStatusSubmitted\<close>, ...) are not under src/. The spec names the six states
  Submitted, Queued, InProgress, Success, Failure, Unknown; \<^verbatim>\<open>TaskStatus\<close> is a string type, the
  value \<^verbatim>\<open>"FAILURE"\<close> is the literal that \<^verbatim>\<open>updateVideoTaskAll\<close> writes, and the five
  constants of the \<^verbatim>\<open>switch\<close> are pairwise different (Go rejects duplicate constant
  cases).
\<close>

definition TaskStatusSubmitted :: TaskStatus where
  "TaskStatusSubmitted = ''SUBMITTED''"

definition TaskStatusQueued :: TaskStatus where
  "TaskStatusQueued = ''QUEUED''"

definition TaskStatusInProgress :: TaskStatus where
  "TaskStatusInProgress = ''IN_PROGRESS''"

definition TaskStatusSuccess :: TaskStatus where
  "TaskStatusSuccess = ''SUCCESS''"

definition TaskStatusFailure :: TaskStatus where
  "TaskStatusFailure = ''FAILURE''"

definition TaskStatusUnknown :: TaskStatus where
  "TaskStatusUnknown = ''UNKNOWN''"

text \<open>\<^verbatim>\<open>model.Task\<close>: the fields the two files read or write.\<close>

record Task =
  TaskID :: string
  Status :: TaskStatus
  Progress :: string
  ModelName :: string
  UserId :: int
  ChannelId :: int
  TokenId :: int
  TokenName :: string
  Group :: string
  Action :: string
  Quota :: int
  SubmitTime :: int
  StartTime :: int
  FinishTime :: int
  FailReason :: string
  Data :: string

text \<open>\<^verbatim>\<open>relaycommon.TaskInfo\<close>, the normalized poll result.\<close>

record TaskInfo =
  ti_TaskID :: string
  ti_Status :: string
  ti_Progress :: string
  ti_Url :: string
  ti_Reason :: string
  ti_TotalTokens :: int

text \<open>The zero value \<^verbatim>\<open>&relaycommon.TaskInfo{}\<close>.\<close>

definition TaskInfo_zero :: TaskInfo where
  "TaskInfo_zero =
     \<lparr>ti_TaskID = [], ti_Status = [], ti_Progress = [], ti_Url = [], ti_Reason = [],
      ti_TotalTokens = 0\<rparr>"

text \<open>\<^verbatim>\<open>fetchResponse\<close> of the adaptor, nested structs flattened.\<close>

record fetchResponse =
  fr_ID :: string
  fr_Model :: string
  fr_Status :: string
  fr_Content_VideoURL :: string
  fr_Usage_CompletionTokens :: int
  fr_Usage_TotalTokens :: int
  fr_CreatedAt :: int
  fr_UpdatedAt :: int
  fr_Seed :: int
  fr_Resolution :: string
  fr_Duration :: int
  fr_Ratio :: string
  fr_FramesPerSecond :: int
  fr_Error_Code :: string
  fr_Error_Message :: string
  fr_Error_Type :: string
  fr_Error_Param :: string

section \<open>The adaptor: \<^verbatim>\<open>ParseTaskResult\<close>\<close>

text \<open>
  \<^verbatim>\<open>strings.ToLower\<close>: for a string of ASCII bytes only, Go maps \<^verbatim>\<open>'A'..'Z'\<close> to
  \<^verbatim>\<open>'a'..'z'\<close> byte by byte; any other string goes through
  \<^verbatim>\<open>Map(unicode.ToLower, s)\<close>, which is the parameter \<open>M\<close> here.
\<close>

definition isASCII :: "string \<Rightarrow> bool" where
  "isASCII s = list_all (\<lambda>c. (of_char c :: nat) < 128) s"

definition lower_byte :: "char \<Rightarrow> char" where
  "lower_byte c =
     (let n = (of_char c :: nat) in if 65 \<le> n \<and> n \<le> 90 then char_of (n + 32) else c)"

definition ToLower :: "(string \<Rightarrow> string) \<Rightarrow> string \<Rightarrow> string" where
  "ToLower M s = (if isASCII s then map lower_byte s else M s)"

text \<open>
  The value handed to \<^verbatim>\<open>json.Marshal\<close> on success: the map \<^verbatim>\<open>successData\<close> with its
  twelve keys. The encoder itself is a parameter.
\<close>

datatype json =
    JString string
  | JNumber int
  | JObject "(string \<times> json) list"

definition successData :: "fetchResponse \<Rightarrow> json" where
  "successData fr = JObject
     [(''id'', JString (fr_ID fr)),
      (''model'', JString (fr_Model fr)),
      (''status'', JString (fr_Status fr)),
      (''content'', JObject [(''video_url'', JString (fr_Content_VideoURL fr))]),
      (''usage'', JObject [(''completion_tokens'', JNumber (fr_Usage_CompletionTokens fr)),
                          (''total_tokens'', JNumber (fr_Usage_TotalTokens fr))]),
      (''created_at'', JNumber (fr_CreatedAt fr)),
      (''updated_at'', JNumber (fr_UpdatedAt fr)),
      (''seed'', JNumber (fr_Seed fr)),
      (''resolution'', JString (fr_Resolution fr)),
      (''duration'', JNumber (fr_Duration fr)),
      (''ratio'', JString (fr_Ratio fr)),
      (''framespersecond'', JNumber (fr_FramesPerSecond fr))]"

text \<open>The three message literals of the source, as UTF-8 bytes.\<close>

definition msg_unknown_format :: string where
  "msg_unknown_format =
     [CHR 0xE6, CHR 0x9C, CHR 0xAA, CHR 0xE7, CHR 0x9F, CHR 0xA5, CHR 0xE5, CHR 0x93,
      CHR 0x8D, CHR 0xE5, CHR 0xBA, CHR 0x94, CHR 0xE6, CHR 0xA0, CHR 0xBC, CHR 0xE5,
      CHR 0xBC, CHR 0x8F]"

definition msg_task_failed :: string where
  "msg_task_failed =
     [CHR 0xE4, CHR 0xBB, CHR 0xBB, CHR 0xE5, CHR 0x8A, CHR 0xA1, CHR 0xE6, CHR 0x89,
      CHR 0xA7, CHR 0xE8, CHR 0xA1, CHR 0x8C, CHR 0xE5, CHR 0xA4, CHR 0xB1, CHR 0xE8,
      CHR 0xB4, CHR 0xA5]"

definition msg_unknown_status :: string where
  "msg_unknown_status =
     [CHR 0xE6, CHR 0x9C, CHR 0xAA, CHR 0xE7, CHR 0x9F, CHR 0xA5, CHR 0xE7, CHR 0x8A,
      CHR 0xB6, CHR 0xE6, CHR 0x80, CHR 0x81, CHR 0x3A, CHR 0x20]"

text \<open>
  The library the adaptor runs on: \<^verbatim>\<open>json.Unmarshal\<close> into a \<^verbatim>\<open>fetchResponse\<close>
  (\<open>None\<close> is its error), \<^verbatim>\<open>json.Marshal\<close> of the snapshot, and the Unicode branch
  of \<^verbatim>\<open>strings.ToLower\<close>.
\<close>

record lib =
  json_Unmarshal :: "string \<Rightarrow> fetchResponse option"
  json_Marshal :: "json \<Rightarrow> string option"
  unicode_ToLower :: "string \<Rightarrow> string"

text \<open>The body of \<^verbatim>\<open>ParseTaskResult\<close> after the payload is decoded.\<close>

definition parseFetchResponse :: "lib \<Rightarrow> fetchResponse \<Rightarrow> TaskInfo" where
  "parseFetchResponse L fr =
     (let res = TaskInfo_zero\<lparr>ti_TaskID := fr_ID fr\<rparr> in
      if fr_Error_Code fr \<noteq> [] then
        res\<lparr>ti_Status := TaskStatusFailure, ti_Progress := ''100%'',
            ti_Reason := fr_Error_Code fr @ '': '' @ fr_Error_Message fr\<rparr>
      else if fr_Status fr = [] then
        res\<lparr>ti_Status := TaskStatusUnknown, ti_Progress := ''0%'',
            ti_Reason := msg_unknown_format\<rparr>
      else
        (let s = ToLower (unicode_ToLower L) (fr_Status fr) in
         if s = ''queued'' then
           res\<lparr>ti_Status := TaskStatusQueued, ti_Progress := ''20%''\<rparr>
         else if s = ''running'' then
           res\<lparr>ti_Status := TaskStatusInProgress, ti_Progress := ''60%''\<rparr>
         else if s = ''succeeded'' then
           (let res1 = res\<lparr>ti_Status := TaskStatusSuccess, ti_Progress := ''100%'',
                             ti_Url := fr_Content_VideoURL fr\<rparr> in
            case json_Marshal L (successData fr) of
              Some dataBytes \<Rightarrow> res1\<lparr>ti_Reason := dataBytes\<rparr>
            | None \<Rightarrow> res1)
         else if s = ''failed'' then
           res\<lparr>ti_Status := TaskStatusFailure, ti_Progress := ''100%'',
               ti_Reason := (if fr_Error_Message fr \<noteq> [] then fr_Error_Message fr
                             else msg_task_failed)\<rparr>
         else
           res\<lparr>ti_Status := TaskStatusUnknown, ti_Progress := ''0%'',
               ti_Reason := msg_unknown_status @ fr_Status fr\<rparr>))"

definition ParseTaskResult :: "lib \<Rightarrow> string \<Rightarrow> TaskInfo option" where
  "ParseTaskResult L respBody =
     (case json_Unmarshal L respBody of
        None \<Rightarrow> None
      | Some fr \<Rightarrow> Some (parseFetchResponse L fr))"

section \<open>The reconciler: \<^verbatim>\<open>updateVideoSingleTask\<close>\<close>

subsection \<open>Collaborators and effects\<close>

datatype error =
    TaskNotFound string
  | FetchTaskFailed string
  | ReadAllFailed string
  | ParseTaskResultFailed string
  | StatusEmpty string
  | UnknownTaskStatus string string
  | CacheGetChannelFailed
  | AdaptorNotFound

text \<open>Outcome of \<^verbatim>\<open>adaptor.FetchTask\<close> followed by \<^verbatim>\<open>io.ReadAll\<close>.\<close>

datatype fetched = FetchErr | ReadErr | Body string

text \<open>
  The interface \<^verbatim>\<open>channel.TaskAdaptor\<close>, its two methods used here. \<open>FetchTask\<close> takes
  base URL, key, task id and action.
\<close>

record adaptor =
  a_FetchTask :: "string \<Rightarrow> string \<Rightarrow> string \<Rightarrow> string \<Rightarrow> fetched"
  a_ParseTaskResult :: "string \<Rightarrow> TaskInfo option"

text \<open>
  The Volc adaptor as a value of that interface: its \<^verbatim>\<open>ParseTaskResult\<close> over a library
  \<open>L\<close>; \<open>fetch\<close> stands for its \<^verbatim>\<open>FetchTask\<close> request followed by the read of the body.
\<close>

definition volc_adaptor ::
  "lib \<Rightarrow> (string \<Rightarrow> string \<Rightarrow> string \<Rightarrow> string \<Rightarrow> fetched) \<Rightarrow> adaptor" where
  "volc_adaptor L fetch = \<lparr>a_FetchTask = fetch, a_ParseTaskResult = ParseTaskResult L\<rparr>"

record Channel =
  ch_Type :: int
  ch_BaseURL :: string
  ch_Key :: string

text \<open>
  What the surroundings answer during one call of \<^verbatim>\<open>updateVideoSingleTask\<close>:
  the table \<^verbatim>\<open>constant.ChannelBaseURLs\<close>; the decoding of the body as the gateway's own
  envelope (\<open>Some t\<close> when \<^verbatim>\<open>json.Unmarshal\<close> succeeds and \<^verbatim>\<open>IsSuccess()\<close> holds); the
  clock at line 103 and at line 202; \<open>json_model\<close>, the string under key
  \<^verbatim>\<open>"model"\<close> of a JSON text (\<open>None\<close> when the text does not decode or has no such
  string); the three rate lookups; whether the ledger and store calls succeed; the
  user name lookup.
\<close>

record env =
  ChannelBaseURLs :: "int \<Rightarrow> string"
  decodeEnvelope :: "string \<Rightarrow> Task option"
  time_Now :: int
  time_Now_log :: int
  json_model :: "string \<Rightarrow> string option"
  GetModelRatio :: "string \<Rightarrow> rat"
  GetCompletionRatio :: "string \<Rightarrow> rat"
  GetGroupRatio :: "string \<Rightarrow> rat"
  DecreaseUserQuota_ok :: bool
  IncreaseUserQuota_ok :: bool
  GetUserById :: "int \<Rightarrow> string option"
  Update_ok :: bool

datatype LogType = LogTypeSystem

text \<open>The three texts handed to the ledger, by their format arguments.\<close>

datatype log_content =
    SupplementContent rat rat rat
  | TokenRefundContent string int int string
  | FailRefundContent string int

text \<open>\<^verbatim>\<open>model.RecordConsumeLogParams\<close> with the entries of the map \<^verbatim>\<open>other\<close>.\<close>

record RecordConsumeLogParams =
  p_ChannelId :: int
  p_PromptTokens :: int
  p_CompletionTokens :: int
  p_ModelName :: string
  p_TokenName :: string
  p_Quota :: int
  p_Content :: log_content
  p_TokenId :: int
  p_UseTimeSeconds :: int
  p_IsStream :: bool
  p_Group :: string
  p_other_task_id :: string
  p_other_action :: string
  p_other_model_ratio :: rat
  p_other_completion_ratio :: rat
  p_other_group_ratio :: rat
  p_other_adjustment_type :: string

text \<open>The keys set on the temporary \<^verbatim>\<open>gin.Context\<close>.\<close>

record tempCtx =
  c_id :: int
  c_token_id :: int
  c_token_name :: string
  c_username :: string

text \<open>
  Calls that leave the task object: ledger calls of package \<^verbatim>\<open>model\<close> and the two store
  calls. A \<open>bool\<close> in last position is the call's outcome (\<open>True\<close>: no error).
\<close>

datatype effect =
    DecreaseUserQuota int int bool
  | IncreaseUserQuota int int bool bool
  | RecordConsumeLog tempCtx int RecordConsumeLogParams
  | UpdateUserUsedQuotaAndRequestCount int int
  | UpdateChannelUsedQuota int int
  | RecordLog int LogType log_content
  | Task_Update Task bool
  | TaskBulkUpdate "string list" string TaskStatus string bool

text \<open>Ledger calls, as opposed to store calls.\<close>

fun is_ledger :: "effect \<Rightarrow> bool" where
  "is_ledger (Task_Update _ _) = False"
| "is_ledger (TaskBulkUpdate _ _ _ _ _) = False"
| "is_ledger _ = True"

subsection \<open>Decimal formatting (\<^verbatim>\<open>%d\<close>)\<close>

fun digit_char :: "nat \<Rightarrow> char" where
  "digit_char n = char_of (48 + n)"

function string_of_nat :: "nat \<Rightarrow> string" where
  "string_of_nat n =
     (if n < 10 then [digit_char n] else string_of_nat (n div 10) @ [digit_char (n mod 10)])"
  by pat_completeness auto
termination
  by (relation "measure id") auto

definition string_of_int :: "int \<Rightarrow> string" where
  "string_of_int i = (if i < 0 then CHR ''-'' # string_of_nat (nat (- i)) else string_of_nat (nat i))"

subsection \<open>Settlement (lines 125 to 255)\<close>

text \<open>
  float64 arithmetic. \<open>f64_exponent x\<close> is the binary exponent of a non-zero \<open>x\<close>
  (\<open>2^e \<le> |x| < 2^(e+1)\<close>); \<open>f64_ulp x\<close> is the spacing of the doubles around \<open>x\<close>: 52
  binary places below the exponent, and \<open>2^-1074\<close> in the subnormal range.
  \<open>round_f64\<close> rounds to the nearest multiple of that spacing, a tie going to the even
  multiple. \<^verbatim>\<open>a * b\<close> on float64 is \<open>f64_mul\<close> and \<^verbatim>\<open>float64(n)\<close> is \<open>f64_of_int\<close>.
\<close>

definition round_half_even :: "rat \<Rightarrow> int" where
  "round_half_even y =
     (let n = \<lfloor>y\<rfloor>; f = y - of_int n in
      if f < 1 / 2 then n else if 1 / 2 < f then n + 1 else if even n then n else n + 1)"

definition f64_exponent :: "rat \<Rightarrow> int" where
  "f64_exponent x =
     (case quotient_of \<bar>x\<bar> of
        (p, q) \<Rightarrow> (let d = bitlen p - bitlen q in if 2 powi d \<le> \<bar>x\<bar> then d else d - 1))"

definition f64_ulp :: "rat \<Rightarrow> rat" where
  "f64_ulp x = 2 powi (max (f64_exponent x) (- 1022) - 52)"

definition round_f64 :: "rat \<Rightarrow> rat" where
  "round_f64 x = (if x = 0 then 0 else of_int (round_half_even (x / f64_ulp x)) * f64_ulp x)"

definition f64_mul :: "rat \<Rightarrow> rat \<Rightarrow> rat" where
  "f64_mul x y = round_f64 (x * y)"

definition f64_of_int :: "int \<Rightarrow> rat" where
  "f64_of_int n = round_f64 (of_int n)"

text \<open>
  The format, stated on its own: a double is \<open>m * 2^k\<close> with a mantissa below \<open>2^53\<close> in
  magnitude and an exponent of at least \<open>-1074\<close>; \<open>nearest_f64 x p\<close> says that \<open>p\<close> is a
  double and no double is closer to \<open>x\<close>. The largest finite double is below \<open>2^1024\<close>.
\<close>

definition is_f64 :: "rat \<Rightarrow> bool" where
  "is_f64 z = (\<exists>m k. z = of_int m * 2 powi k \<and> \<bar>m\<bar> < 2 ^ 53 \<and> - 1074 \<le> k)"

definition nearest_f64 :: "rat \<Rightarrow> rat \<Rightarrow> bool" where
  "nearest_f64 x p = (is_f64 p \<and> (\<forall>z. is_f64 z \<longrightarrow> \<bar>p - x\<bar> \<le> \<bar>z - x\<bar>))"

definition f64_finite :: "rat \<Rightarrow> bool" where
  "f64_finite x = (\<bar>x\<bar> < 2 powi 1024)"

text \<open>
  \<^verbatim>\<open>int(f)\<close> on a float64: the fraction is dropped, toward zero. When the result does not
  fit 64 bits Go leaves the value to the implementation; the amd64 conversion
  instruction then gives the smallest 64-bit integer, which is what is modelled.
\<close>

definition go_int :: "rat \<Rightarrow> int" where
  "go_int x =
     (let n = (if x < 0 then \<lceil>x\<rceil> else \<lfloor>x\<rfloor>)
      in if - (2 ^ 63) \<le> n \<and> n < 2 ^ 63 then n else - (2 ^ 63))"

text \<open>Lines 127 to 153: the billed model name.\<close>

definition resolveModelName :: "env \<Rightarrow> Task \<Rightarrow> TaskInfo \<Rightarrow> string" where
  "resolveModelName e task taskResult =
     (let m1 = ModelName task;
          m2 = (if m1 = [] \<and> ti_Reason taskResult \<noteq> [] then
                  (case json_model e (ti_Reason taskResult) of Some m \<Rightarrow> m | None \<Rightarrow> m1)
                else m1);
          m3 = (if m2 = [] then
                  (case json_model e (Data task) of Some m \<Rightarrow> m | None \<Rightarrow> m2)
                else m2)
      in if m3 = [] then ''doubao-seedance-1-0-lite-i2v'' else m3)"

text \<open>Lines 156 to 172: the three rates as the product uses them.\<close>

definition modelRatio_of :: "env \<Rightarrow> string \<Rightarrow> rat" where
  "modelRatio_of e modelName =
     (let modelRatio = GetModelRatio e modelName in if modelRatio = 0 then 1 else modelRatio)"

definition completionRatio_of :: "env \<Rightarrow> string \<Rightarrow> rat" where
  "completionRatio_of e modelName =
     (let completionRatio = GetCompletionRatio e modelName in
      if completionRatio = 0 then 1 else completionRatio)"

definition groupRatio_of :: "env \<Rightarrow> Task \<Rightarrow> rat" where
  "groupRatio_of e task =
     (let groupName = (if Group task = [] then ''default'' else Group task)
      in GetGroupRatio e groupName)"

text \<open>
  Lines 176 to 179. The product is evaluated left to right, each multiplication rounded
  to a double, and then converted.
\<close>

definition actualQuota_of :: "int \<Rightarrow> rat \<Rightarrow> rat \<Rightarrow> rat \<Rightarrow> int" where
  "actualQuota_of totalTokens completionRatio modelRatio groupRatio =
     (let actualQuota =
            go_int (f64_mul (f64_mul (f64_mul (f64_of_int totalTokens) completionRatio)
                               modelRatio) groupRatio)
      in if actualQuota \<le> 0 \<and> modelRatio > 0 then 1 else actualQuota)"

definition actualQuota :: "env \<Rightarrow> Task \<Rightarrow> TaskInfo \<Rightarrow> int" where
  "actualQuota e task taskResult =
     (let modelName = resolveModelName e task taskResult in
      actualQuota_of (ti_TotalTokens taskResult) (completionRatio_of e modelName)
        (modelRatio_of e modelName) (groupRatio_of e task))"

text \<open>Lines 191 to 237: what the supplement branch sends to the ledger after the debit.\<close>

definition supplementLog :: "env \<Rightarrow> Task \<Rightarrow> TaskInfo \<Rightarrow> int \<Rightarrow> effect list" where
  "supplementLog e task taskResult quotaDelta =
     (let modelName = resolveModelName e task taskResult;
          modelRatio = modelRatio_of e modelName;
          completionRatio = completionRatio_of e modelName;
          groupRatio = groupRatio_of e task;
          useTime0 = FinishTime task - SubmitTime task;
          useTime = (if useTime0 \<le> 0 then time_Now_log e - SubmitTime task else useTime0);
          username = (case GetUserById e (UserId task) of
                        Some name \<Rightarrow> name
                      | None \<Rightarrow> ''user_'' @ string_of_int (UserId task))
      in [RecordConsumeLog
            \<lparr>c_id = UserId task, c_token_id = TokenId task, c_token_name = TokenName task,
             c_username = username\<rparr>
            (UserId task)
            \<lparr>p_ChannelId = ChannelId task, p_PromptTokens = 0,
             p_CompletionTokens = ti_TotalTokens taskResult, p_ModelName = modelName,
             p_TokenName = TokenName task, p_Quota = quotaDelta,
             p_Content = SupplementContent modelRatio completionRatio groupRatio,
             p_TokenId = TokenId task, p_UseTimeSeconds = useTime, p_IsStream = False,
             p_Group = Group task, p_other_task_id = TaskID task,
             p_other_action = Action task, p_other_model_ratio = modelRatio,
             p_other_completion_ratio = completionRatio, p_other_group_ratio = groupRatio,
             p_other_adjustment_type = ''supplement''\<rparr>,
          UpdateUserUsedQuotaAndRequestCount (UserId task) quotaDelta,
          UpdateChannelUsedQuota (ChannelId task) quotaDelta])"

text \<open>Lines 182 to 252: the delta, the ledger calls and the rewrite of \<^verbatim>\<open>task.Quota\<close>.\<close>

definition settle :: "env \<Rightarrow> Task \<Rightarrow> TaskInfo \<Rightarrow> Task \<times> effect list" where
  "settle e task taskResult =
     (let aq = actualQuota e task taskResult;
          quotaDelta = aq - Quota task
      in if quotaDelta \<noteq> 0 then
           (if quotaDelta > 0 then
              (if DecreaseUserQuota_ok e then
                 (task\<lparr>Quota := aq\<rparr>,
                  DecreaseUserQuota (UserId task) quotaDelta True
                    # supplementLog e task taskResult quotaDelta)
               else
                 (task\<lparr>Quota := aq\<rparr>, [DecreaseUserQuota (UserId task) quotaDelta False]))
            else
              (if IncreaseUserQuota_ok e then
                 (task\<lparr>Quota := aq\<rparr>,
                  [IncreaseUserQuota (UserId task) (- quotaDelta) False True,
                   RecordLog (UserId task) LogTypeSystem
                     (TokenRefundContent (TaskID task) (- quotaDelta)
                        (ti_TotalTokens taskResult) (resolveModelName e task taskResult))])
               else
                 (task\<lparr>Quota := aq\<rparr>,
                  [IncreaseUserQuota (UserId task) (- quotaDelta) False False])))
         else (task, []))"

subsection \<open>The status switch (lines 108 to 274)\<close>

text \<open>\<open>None\<close> is the \<^verbatim>\<open>default\<close> branch, which returns an error.\<close>

definition statusSwitch :: "env \<Rightarrow> Task \<Rightarrow> TaskInfo \<Rightarrow> (Task \<times> effect list) option" where
  "statusSwitch e task taskResult =
     (let now = time_Now e; s = ti_Status taskResult in
      if s = TaskStatusSubmitted then Some (task\<lparr>Progress := ''10%''\<rparr>, [])
      else if s = TaskStatusQueued then Some (task\<lparr>Progress := ''20%''\<rparr>, [])
      else if s = TaskStatusInProgress then
        Some (task\<lparr>Progress := ''30%'',
                   StartTime := (if StartTime task = 0 then now else StartTime task)\<rparr>, [])
      else if s = TaskStatusSuccess then
        (let task1 = task\<lparr>Progress := ''100%'',
                          FinishTime := (if FinishTime task = 0 then now else FinishTime task),
                          FailReason := ti_Url taskResult\<rparr>
         in if ti_TotalTokens taskResult > 0 then Some (settle e task1 taskResult)
            else Some (task1, []))
      else if s = TaskStatusFailure then
        (let task1 = task\<lparr>Status := TaskStatusFailure, Progress := ''100%'',
                          FinishTime := (if FinishTime task = 0 then now else FinishTime task),
                          FailReason := ti_Reason taskResult\<rparr>;
             quota = Quota task1
         in if quota \<noteq> 0 then
              Some (task1,
                    [IncreaseUserQuota (UserId task1) quota False (IncreaseUserQuota_ok e),
                     RecordLog (UserId task1) LogTypeSystem
                       (FailRefundContent (TaskID task1) quota)])
            else Some (task1, []))
      else None)"

text \<open>
  Lines 103 to 282: from the normalized result to the persisted task. The result is the
  returned error (if any), the task object as the call leaves it, and the trace.
\<close>

definition applyTaskResult ::
  "env \<Rightarrow> string \<Rightarrow> Task \<Rightarrow> TaskInfo \<Rightarrow> error option \<times> Task \<times> effect list" where
  "applyTaskResult e taskId task taskResult =
     (if ti_Status taskResult = [] then (Some (StatusEmpty taskId), task, [])
      else
        (let task1 = task\<lparr>Status := ti_Status taskResult\<rparr> in
         case statusSwitch e task1 taskResult of
           None \<Rightarrow> (Some (UnknownTaskStatus (ti_Status taskResult) taskId), task1, [])
         | Some (task2, effs) \<Rightarrow>
             (let task3 = (if ti_Progress taskResult \<noteq> [] then
                             task2\<lparr>Progress := ti_Progress taskResult\<rparr>
                           else task2)
              in (None, task3, effs @ [Task_Update task3 (Update_ok e)]))))"

text \<open>Lines 91 to 96: the normalized result read off the gateway's own envelope.\<close>

definition envelopeResult :: "Task \<Rightarrow> TaskInfo" where
  "envelopeResult t =
     TaskInfo_zero\<lparr>ti_TaskID := TaskID t, ti_Status := Status t, ti_Url := FailReason t,
                   ti_Progress := Progress t, ti_Reason := FailReason t\<rparr>"

text \<open>
  The whole function. \<open>taskM\<close> maps task ids to the task objects of this pass; the
  objects are shared with the caller, so the map is returned with the object as the call
  leaves it, also when the call returns an error.
\<close>

definition updateVideoSingleTask ::
  "adaptor \<Rightarrow> env \<Rightarrow> Channel \<Rightarrow> string \<Rightarrow> (string \<rightharpoonup> Task)
     \<Rightarrow> error option \<times> (string \<rightharpoonup> Task) \<times> effect list" where
  "updateVideoSingleTask A e channel taskId taskM =
     (let baseURL = (if ch_BaseURL channel \<noteq> [] then ch_BaseURL channel
                     else ChannelBaseURLs e (ch_Type channel)) in
      case taskM taskId of
        None \<Rightarrow> (Some (TaskNotFound taskId), taskM, [])
      | Some task \<Rightarrow>
          (case a_FetchTask A baseURL (ch_Key channel) taskId (Action task) of
             FetchErr \<Rightarrow> (Some (FetchTaskFailed taskId), taskM, [])
           | ReadErr \<Rightarrow> (Some (ReadAllFailed taskId), taskM, [])
           | Body responseBody \<Rightarrow>
               (case decodeEnvelope e responseBody of
                  Some t \<Rightarrow>
                    (case applyTaskResult e taskId task (envelopeResult t) of
                       (err, task', effs) \<Rightarrow> (err, taskM(taskId \<mapsto> task'), effs))
                | None \<Rightarrow>
                    (case a_ParseTaskResult A responseBody of
                       None \<Rightarrow> (Some (ParseTaskResultFailed taskId), taskM, [])
                     | Some taskResult \<Rightarrow>
                         (case applyTaskResult e taskId (task\<lparr>Data := responseBody\<rparr>) taskResult of
                            (err, task', effs) \<Rightarrow> (err, taskM(taskId \<mapsto> task'), effs))))))"

section \<open>The batch: \<^verbatim>\<open>updateVideoTaskAll\<close>\<close>

text \<open>
  What the surroundings answer during one call of \<^verbatim>\<open>updateVideoTaskAll\<close>: the channel
  lookup (\<open>None\<close> is its error), the adaptor registered for the platform (\<open>None\<close> is
  \<^verbatim>\<open>nil\<close>), the outcome of the bulk update, and the answers during the i-th call of
  \<^verbatim>\<open>updateVideoSingleTask\<close> of the loop.
\<close>

record chan_env =
  CacheGetChannel :: "int \<Rightarrow> Channel option"
  GetTaskAdaptor :: "string \<Rightarrow> adaptor option"
  TaskBulkUpdate_ok :: bool
  task_env :: "nat \<Rightarrow> env"

text \<open>
  Lines 52 to 56. An error of one task is logged and the loop goes on; the third
  component collects these errors in order.
\<close>

fun updateTasks ::
  "adaptor \<Rightarrow> (nat \<Rightarrow> env) \<Rightarrow> Channel \<Rightarrow> nat \<Rightarrow> string list \<Rightarrow> (string \<rightharpoonup> Task)
     \<Rightarrow> (string \<rightharpoonup> Task) \<times> effect list \<times> error list" where
  "updateTasks A E ch i [] taskM = (taskM, [], [])"
| "updateTasks A E ch i (taskId # rest) taskM =
     (case updateVideoSingleTask A (E i) ch taskId taskM of
        (err, taskM1, effs1) \<Rightarrow>
          (case updateTasks A E ch (Suc i) rest taskM1 of
             (taskM2, effs2, errs) \<Rightarrow>
               (taskM2, effs1 @ effs2,
                (case err of None \<Rightarrow> [] | Some x \<Rightarrow> [x]) @ errs)))"

definition channel_fail_reason :: "int \<Rightarrow> string" where
  "channel_fail_reason channelId =
     ''Failed to get channel info, channel ID: '' @ string_of_int channelId"

definition updateVideoTaskAll ::
  "chan_env \<Rightarrow> string \<Rightarrow> int \<Rightarrow> string list \<Rightarrow> (string \<rightharpoonup> Task)
     \<Rightarrow> error option \<times> (string \<rightharpoonup> Task) \<times> effect list \<times> error list" where
  "updateVideoTaskAll C platform channelId taskIds taskM =
     (if taskIds = [] then (None, taskM, [], [])
      else
        (case CacheGetChannel C channelId of
           None \<Rightarrow>
             (Some CacheGetChannelFailed, taskM,
              [TaskBulkUpdate taskIds (channel_fail_reason channelId) ''FAILURE'' ''100%''
                 (TaskBulkUpdate_ok C)], [])
         | Some cacheGetChannel \<Rightarrow>
             (case GetTaskAdaptor C platform of
                None \<Rightarrow> (Some AdaptorNotFound, taskM, [], [])
              | Some A \<Rightarrow>
                  (case updateTasks A (task_env C) cacheGetChannel 0 taskIds taskM of
                     (taskM1, effs, errs) \<Rightarrow> (None, taskM1, effs, errs)))))"

section \<open>The task store and sequences of passes\<close>

text \<open>
  Modelled from the spec: the Task Store collaborator (single-record update and
  bulk-update-by-ID, package \<^verbatim>\<open>model\<close>) is not under src/. A successful
  \<^verbatim>\<open>task.Update()\<close> replaces the stored record of that task by the task object; a
  successful \<^verbatim>\<open>TaskBulkUpdate\<close> sets the three given columns of every listed task and
  nothing else; a failed call and a ledger call leave the stored record as it is.
  \<open>store_apply ef t\<close> is the stored record of task \<open>t\<close> after the call \<open>ef\<close>.
\<close>

fun store_apply :: "effect \<Rightarrow> Task \<Rightarrow> Task" where
  "store_apply (Task_Update t' ok) t = (if ok \<and> TaskID t' = TaskID t then t' else t)"
| "store_apply (TaskBulkUpdate ids fail_reason status progress ok) t =
     (if ok \<and> TaskID t \<in> set ids then
        t\<lparr>FailReason := fail_reason, Status := status, Progress := progress\<rparr>
      else t)"
| "store_apply _ t = t"

definition persist :: "effect list \<Rightarrow> Task \<Rightarrow> Task" where
  "persist effs t = foldl (\<lambda>t' ef. store_apply ef t') t effs"

text \<open>
  One reconciliation pass on a stored task \<open>t\<close>: either the task is polled
  (\<^verbatim>\<open>updateVideoSingleTask\<close> on the task object loaded from the store), or the lookup of
  its channel fails (\<^verbatim>\<open>updateVideoTaskAll\<close> with \<^verbatim>\<open>CacheGetChannel\<close> returning an error,
  lines 36 to 47) for a batch \<open>taskIds\<close>.
\<close>

datatype pass =
    Poll adaptor env Channel
  | ChannelDown chan_env string int "string list"

fun pass_effects :: "pass \<Rightarrow> Task \<Rightarrow> effect list" where
  "pass_effects (Poll A e ch) t =
     (case updateVideoSingleTask A e ch (TaskID t) [TaskID t \<mapsto> t] of
        (err, taskM, effs) \<Rightarrow> effs)"
| "pass_effects (ChannelDown C platform channelId taskIds) t =
     (case updateVideoTaskAll (C\<lparr>CacheGetChannel := (\<lambda>_. None)\<rparr>) platform channelId taskIds
             [TaskID t \<mapsto> t] of
        (err, taskM, effs, errs) \<Rightarrow> effs)"

definition pass_step :: "pass \<Rightarrow> Task \<Rightarrow> Task" where
  "pass_step p t = persist (pass_effects p t) t"

fun passes :: "pass list \<Rightarrow> Task \<Rightarrow> Task" where
  "passes [] t = t"
| "passes (p # ps) t = passes ps (pass_step p t)"

text \<open>
  The status a pass stores for the task. A poll stores \<open>Some s\<close> when the call returns
  no error and its \<^verbatim>\<open>task.Update()\<close> succeeds; a failed channel lookup stores
  \<^verbatim>\<open>FAILURE\<close> when the batch is not empty, holds the task and its bulk update succeeds;
  \<open>None\<close> otherwise (nothing is stored then).
\<close>

fun stored_status :: "pass \<Rightarrow> Task \<Rightarrow> TaskStatus option" where
  "stored_status (Poll A e ch) t =
     (case updateVideoSingleTask A e ch (TaskID t) [TaskID t \<mapsto> t] of
        (None, taskM, effs) \<Rightarrow>
          (if Update_ok e then map_option Status (taskM (TaskID t)) else None)
      | (Some err, taskM, effs) \<Rightarrow> None)"
| "stored_status (ChannelDown C platform channelId taskIds) t =
     (if taskIds \<noteq> [] \<and> TaskBulkUpdate_ok C \<and> TaskID t \<in> set taskIds then Some ''FAILURE''
      else None)"

text \<open>The clock reading of a pass; the bulk path reads no clock.\<close>

fun pass_clock :: "pass \<Rightarrow> int option" where
  "pass_clock (Poll A e ch) = Some (time_Now e)"
| "pass_clock (ChannelDown C platform channelId taskIds) = None"

text \<open>
  Two environments answer the settlement alike: the same rate lookups and the same
  reading of model names out of JSON texts (the clock, the ledger outcomes and the rest
  may differ).
\<close>

definition same_rates :: "env \<Rightarrow> env \<Rightarrow> bool" where
  "same_rates e e2 =
     (json_model e2 = json_model e \<and> GetModelRatio e2 = GetModelRatio e \<and>
      GetCompletionRatio e2 = GetCompletionRatio e \<and> GetGroupRatio e2 = GetGroupRatio e)"

section \<open>Concrete inputs\<close>

text \<open>
  A channel environment in which every call succeeds and every rate is 1, a queued task
  with reserved quota 50, and poll results; used where a statement is evaluated.
\<close>

definition env0 :: env where
  "env0 =
     \<lparr>ChannelBaseURLs = (\<lambda>_. ''https://ark.example''),
      decodeEnvelope = (\<lambda>_. None),
      time_Now = 1700000100,
      time_Now_log = 1700000101,
      json_model = (\<lambda>_. None),
      GetModelRatio = (\<lambda>_. 1),
      GetCompletionRatio = (\<lambda>_. 1),
      GetGroupRatio = (\<lambda>_. 1),
      DecreaseUserQuota_ok = True,
      IncreaseUserQuota_ok = True,
      GetUserById = (\<lambda>_. Some ''alice''),
      Update_ok = True\<rparr>"

definition task0 :: Task where
  "task0 =
     \<lparr>TaskID = ''cgt-1'', Status = TaskStatusQueued, Progress = ''20%'',
      ModelName = ''doubao-seedance-pro-250528'', UserId = 7, ChannelId = 3, TokenId = 11,
      TokenName = ''tok'', Group = ''default'', Action = ''generate'', Quota = 50,
      SubmitTime = 1700000000, StartTime = 0, FinishTime = 0, FailReason = [],
      Data = []\<rparr>"

definition success80 :: TaskInfo where
  "success80 =
     \<lparr>ti_TaskID = ''cgt-1'', ti_Status = TaskStatusSuccess, ti_Progress = ''100%'',
      ti_Url = ''https://cdn.example/v.mp4'', ti_Reason = [], ti_TotalTokens = 80\<rparr>"

definition quarter_env :: env where
  "quarter_env = env0\<lparr>GetCompletionRatio := (\<lambda>_. 1 / 4)\<rparr>"

definition success7 :: TaskInfo where
  "success7 = success80\<lparr>ti_TotalTokens := 7\<rparr>"

text \<open>The double nearest to 0.7, a completion rate of that value, and a result of 10 tokens.\<close>

definition seven_tenths :: rat where
  "seven_tenths = 3152519739159347 / 2 ^ 52"

definition point7_env :: env where
  "point7_env = env0\<lparr>GetCompletionRatio := (\<lambda>_. seven_tenths)\<rparr>"

definition success10 :: TaskInfo where
  "success10 = success80\<lparr>ti_TotalTokens := 10\<rparr>"

definition zero_group_env :: env where
  "zero_group_env = env0\<lparr>GetGroupRatio := (\<lambda>_. 0)\<rparr>"

definition zero_model_env :: env where
  "zero_model_env = env0\<lparr>GetModelRatio := (\<lambda>_. 0), GetCompletionRatio := (\<lambda>_. 0)\<rparr>"

text \<open>
  Vendor responses: the zero response with an id, and a library that decodes every body
  to a given response (its encoder answers \<^verbatim>\<open>{}\<close>, its Unicode lowering is the identity).
\<close>

definition fr0 :: fetchResponse where
  "fr0 =
     \<lparr>fr_ID = ''cgt-1'', fr_Model = ''doubao-seedance-pro-250528'', fr_Status = [],
      fr_Content_VideoURL = [], fr_Usage_CompletionTokens = 0, fr_Usage_TotalTokens = 0,
      fr_CreatedAt = 1700000000, fr_UpdatedAt = 1700000050, fr_Seed = 0, fr_Resolution = [],
      fr_Duration = 0, fr_Ratio = [], fr_FramesPerSecond = 0, fr_Error_Code = [],
      fr_Error_Message = [], fr_Error_Type = [], fr_Error_Param = []\<rparr>"

definition lib_of :: "fetchResponse \<Rightarrow> lib" where
  "lib_of fr =
     \<lparr>json_Unmarshal = (\<lambda>_. Some fr), json_Marshal = (\<lambda>_. Some ''{}''),
      unicode_ToLower = (\<lambda>s. s)\<rparr>"

definition fr_paused :: fetchResponse where
  "fr_paused = fr0\<lparr>fr_Status := ''paused''\<rparr>"

definition fr_running :: fetchResponse where
  "fr_running = fr0\<lparr>fr_Status := ''RUNNING''\<rparr>"

definition fr_queued :: fetchResponse where
  "fr_queued = fr0\<lparr>fr_Status := ''Queued''\<rparr>"

definition fr_succeeded :: fetchResponse where
  "fr_succeeded =
     fr0\<lparr>fr_Status := ''succeeded'', fr_Content_VideoURL := ''https://cdn.example/v.mp4''\<rparr>"

definition fr_failed :: fetchResponse where
  "fr_failed = fr0\<lparr>fr_Status := ''FAILED''\<rparr>"

definition fr_rate_limited :: fetchResponse where
  "fr_rate_limited =
     fr0\<lparr>fr_Status := ''running'', fr_Error_Code := ''rate_limited'',
         fr_Error_Message := ''slow down''\<rparr>"

text \<open>
  Further poll results, a task with no reserved quota, a channel, an adaptor that answers
  by task id, and a batch of two.
\<close>

definition failure_result :: TaskInfo where
  "failure_result =
     \<lparr>ti_TaskID = ''cgt-1'', ti_Status = TaskStatusFailure, ti_Progress = ''100%'',
      ti_Url = [], ti_Reason = ''rate_limited: slow down'', ti_TotalTokens = 0\<rparr>"

definition free_task :: Task where
  "free_task = task0\<lparr>Quota := 0\<rparr>"

definition channel0 :: Channel where
  "channel0 = \<lparr>ch_Type = 45, ch_BaseURL = [], ch_Key = ''key''\<rparr>"

definition unknown_result :: TaskInfo where
  "unknown_result =
     \<lparr>ti_TaskID = ''cgt-1'', ti_Status = TaskStatusUnknown, ti_Progress = ''0%'',
      ti_Url = [], ti_Reason = msg_unknown_format, ti_TotalTokens = 0\<rparr>"


definition task2 :: Task where
  "task2 = task0\<lparr>TaskID := ''cgt-2''\<rparr>"

definition adaptor0 :: adaptor where
  "adaptor0 =
     \<lparr>a_FetchTask = (\<lambda>baseURL key taskId action. Body taskId),
      a_ParseTaskResult =
        (\<lambda>body. if body = ''cgt-1'' then Some unknown_result else Some failure_result)\<rparr>"

definition chan_env0 :: chan_env where
  "chan_env0 =
     \<lparr>CacheGetChannel = (\<lambda>_. Some channel0), GetTaskAdaptor = (\<lambda>_. Some adaptor0),
      TaskBulkUpdate_ok = True, task_env = (\<lambda>_. env0)\<rparr>"

definition taskM0 :: "string \<rightharpoonup> Task" where
  "taskM0 = [''cgt-1'' \<mapsto> task0, ''cgt-2'' \<mapsto> task2]"

definition inprogress45 :: TaskInfo where
  "inprogress45 =
     \<lparr>ti_TaskID = ''cgt-1'', ti_Status = TaskStatusInProgress, ti_Progress = ''45%'',
      ti_Url = [], ti_Reason = [], ti_TotalTokens = 0\<rparr>"

definition fetch_body :: "string \<Rightarrow> string \<Rightarrow> string \<Rightarrow> string \<Rightarrow> fetched" where
  "fetch_body baseURL key taskId action = Body ''body''"

text \<open>The batch environment with the channel lookup failing; an environment whose debit fails.\<close>

definition chan_env_down :: chan_env where
  "chan_env_down = chan_env0\<lparr>CacheGetChannel := (\<lambda>_. None)\<rparr>"

definition debit_fails_env :: env where
  "debit_fails_env = env0\<lparr>DecreaseUserQuota_ok := False\<rparr>"

text \<open>A stored status is terminal when it is Success or Failure.\<close>

definition terminal :: "TaskStatus option \<Rightarrow> bool" where
  "terminal s = (s = Some TaskStatusSuccess \<or> s = Some TaskStatusFailure)"

text \<open>
  An adaptor that parses every body to a given result, a poll with it at a given clock
  reading, and a pass in which the channel lookup fails.
\<close>

definition const_adaptor :: "TaskInfo \<Rightarrow> adaptor" where
  "const_adaptor r = \<lparr>a_FetchTask = fetch_body, a_ParseTaskResult = (\<lambda>_. Some r)\<rparr>"

definition queued_result :: TaskInfo where
  "queued_result =
     \<lparr>ti_TaskID = ''cgt-1'', ti_Status = TaskStatusQueued, ti_Progress = ''20%'',
      ti_Url = [], ti_Reason = [], ti_TotalTokens = 0\<rparr>"

definition poll_at :: "int \<Rightarrow> TaskInfo \<Rightarrow> pass" where
  "poll_at clock r = Poll (const_adaptor r) (env0\<lparr>time_Now := clock\<rparr>) channel0"

definition down_pass :: pass where
  "down_pass = ChannelDown chan_env_down ''volcvideo'' 3 [''cgt-1'']"

section \<open>Basic facts\<close>

lemmas TaskStatus_defs =
  TaskStatusSubmitted_def TaskStatusQueued_def TaskStatusInProgress_def
  TaskStatusSuccess_def TaskStatusFailure_def TaskStatusUnknown_def

subsection \<open>float64 rounding is correct rounding\<close>

lemma round_half_even_near: "\<bar>of_int (round_half_even y) - y\<bar> \<le> 1 / 2"
  unfolding round_half_even_def Let_def by (auto simp: abs_if) linarith+

lemma round_half_even_nearest: "\<bar>of_int (round_half_even y) - y\<bar> \<le> \<bar>of_int j - y\<bar>"
proof (cases "of_int j = y")
  case True
  then have "y = of_int j" by simp
  then have "round_half_even y = j"
    unfolding round_half_even_def Let_def by simp
  then show ?thesis using True by simp
next
  case False
  show ?thesis
  proof (rule ccontr)
    assume "\<not> ?thesis"
    then have lt: "\<bar>of_int j - y\<bar> < \<bar>of_int (round_half_even y) - y\<bar>" by simp
    then have "\<bar>of_int j - y\<bar> < 1 / 2" using round_half_even_near[of y] by linarith
    then have "\<bar>of_int j - of_int (round_half_even y) :: rat\<bar> < 1"
      using round_half_even_near[of y] lt by linarith
    then have "\<bar>j - round_half_even y\<bar> < 1"
      by (metis of_int_diff of_int_abs of_int_less_1_iff)
    then have "j = round_half_even y" by linarith
    then show False using lt by simp
  qed
qed

lemma f64_exponent_bounds:
  assumes "x \<noteq> 0"
  shows "2 powi (f64_exponent x) \<le> \<bar>x\<bar>" and "\<bar>x\<bar> < 2 powi (f64_exponent x + 1)"
proof -
  obtain p q where pq: "quotient_of \<bar>x\<bar> = (p, q)" by (cases "quotient_of \<bar>x\<bar>")
  have q: "q > 0" using quotient_of_denom_pos[OF pq] .
  have x: "\<bar>x\<bar> = of_int p / of_int q" using quotient_of_div[OF pq] .
  have "\<bar>x\<bar> > 0" using assms by simp
  then have p: "p > 0" using x q by (simp add: zero_less_divide_iff)
  define d where "d = bitlen p - bitlen q"
  have bp: "2 ^ nat (bitlen p - 1) \<le> p" "p < 2 ^ nat (bitlen p)" using bitlen_bounds[OF p] by auto
  have bq: "2 ^ nat (bitlen q - 1) \<le> q" "q < 2 ^ nat (bitlen q)" using bitlen_bounds[OF q] by auto
  have lp: "bitlen p \<ge> 1" using p bitlen_eq_zero_iff[of p] bitlen_nonneg[of p] by linarith
  have lq: "bitlen q \<ge> 1" using q bitlen_eq_zero_iff[of q] bitlen_nonneg[of q] by linarith
  have P1: "(2::rat) powi (bitlen p - 1) \<le> of_int p"
  proof -
    have "(of_int (2 ^ nat (bitlen p - 1)) :: rat) \<le> of_int p" using bp(1) by (simp only: of_int_le_iff)
    then show ?thesis using lp by (simp add: power_int_def)
  qed
  have P2: "of_int p < (2::rat) powi (bitlen p)"
  proof -
    have "(of_int p :: rat) < of_int (2 ^ nat (bitlen p))" using bp(2) by (simp only: of_int_less_iff)
    then show ?thesis using lp by (simp add: power_int_def)
  qed
  have Q1: "(2::rat) powi (bitlen q - 1) \<le> of_int q"
  proof -
    have "(of_int (2 ^ nat (bitlen q - 1)) :: rat) \<le> of_int q" using bq(1) by (simp only: of_int_le_iff)
    then show ?thesis using lq by (simp add: power_int_def)
  qed
  have Q2: "of_int q < (2::rat) powi (bitlen q)"
  proof -
    have "(of_int q :: rat) < of_int (2 ^ nat (bitlen q))" using bq(2) by (simp only: of_int_less_iff)
    then show ?thesis using lq by (simp add: power_int_def)
  qed
  have qpos: "(of_int q :: rat) > 0" using q by simp
  have up: "\<bar>x\<bar> < 2 powi (d + 1)"
  proof -
    have "of_int p < (2::rat) powi (bitlen p)" by (rule P2)
    also have "\<dots> = 2 powi (d + 1) * 2 powi (bitlen q - 1)"
      by (simp add: d_def power_int_add[symmetric])
    also have "\<dots> \<le> 2 powi (d + 1) * of_int q"
      using Q1 by (intro mult_left_mono) simp_all
    finally show ?thesis using qpos by (simp add: x pos_divide_less_eq)
  qed
  have low: "2 powi (d - 1) < \<bar>x\<bar>"
  proof -
    have "(2::rat) powi (d - 1) * of_int q < 2 powi (d - 1) * 2 powi (bitlen q)"
      using Q2 by (intro mult_strict_left_mono) simp_all
    also have "\<dots> = 2 powi (bitlen p - 1)"
      by (simp add: d_def power_int_add[symmetric])
    also have "\<dots> \<le> of_int p" by (rule P1)
    finally show ?thesis using qpos by (simp add: x pos_less_divide_eq)
  qed
  have e: "f64_exponent x = (if 2 powi d \<le> \<bar>x\<bar> then d else d - 1)"
    by (simp add: f64_exponent_def pq d_def Let_def)
  show "2 powi (f64_exponent x) \<le> \<bar>x\<bar>" using e low by (auto split: if_splits)
  show "\<bar>x\<bar> < 2 powi (f64_exponent x + 1)" using e up by (auto split: if_splits)
qed


lemma f64_ulp_pos: "f64_ulp x > 0"
  by (simp add: f64_ulp_def)

lemma round_f64_grid:
  "\<bar>round_f64 x - x\<bar> \<le> \<bar>of_int j * f64_ulp x - x\<bar>"
proof (cases "x = 0")
  case True
  then show ?thesis by (simp add: round_f64_def)
next
  case False
  let ?q = "f64_ulp x"
  have q: "?q > 0" by (rule f64_ulp_pos)
  have sc: "\<bar>of_int i * ?q - x\<bar> = \<bar>of_int i - x / ?q\<bar> * ?q" for i :: int
  proof -
    have "of_int i * ?q - x = (of_int i - x / ?q) * ?q" using q by (simp add: field_simps)
    then show ?thesis using q by (simp add: abs_mult)
  qed
  have "\<bar>round_f64 x - x\<bar> = \<bar>of_int (round_half_even (x / ?q)) - x / ?q\<bar> * ?q"
    using False sc[of "round_half_even (x / ?q)"] by (simp add: round_f64_def)
  also have "\<dots> \<le> \<bar>of_int j - x / ?q\<bar> * ?q"
    using round_half_even_nearest[of "x / ?q" j] q by (intro mult_right_mono) simp_all
  also have "\<dots> = \<bar>of_int j * ?q - x\<bar>"
    using sc[of j] by simp
  finally show ?thesis .
qed

lemma round_f64_nearest:
  assumes "is_f64 z"
  shows "\<bar>round_f64 x - x\<bar> \<le> \<bar>z - x\<bar>"
proof (cases "x = 0")
  case True
  then show ?thesis by (simp add: round_f64_def)
next
  case xn: False
  obtain m k where z: "z = of_int m * 2 powi k" and m: "\<bar>m\<bar> < 2 ^ 53" and k: "- 1074 \<le> k"
    using assms unfolding is_f64_def by blast
  define e where "e = f64_exponent x"
  define k0 where "k0 = max e (- 1022) - 52"
  have q: "f64_ulp x = 2 powi k0" by (simp add: f64_ulp_def k0_def e_def)
  note eb = f64_exponent_bounds[OF xn, folded e_def]
  show ?thesis
  proof (cases "k0 \<le> k")
    case True
    have "(2::rat) powi k = 2 powi (k - k0) * 2 powi k0"
      by (simp add: power_int_add[symmetric])
    also have "(2::rat) powi (k - k0) = of_int (2 ^ nat (k - k0))"
      using True by (simp add: power_int_def)
    finally have "z = of_int (m * 2 ^ nat (k - k0)) * f64_ulp x"
      by (simp add: z q)
    then show ?thesis using round_f64_grid[of x "m * 2 ^ nat (k - k0)"] by simp
  next
    case False
    then have e52: "k0 = e - 52" and kk: "k \<le> k0 - 1" using k by (auto simp: k0_def)
    have mm: "(of_int \<bar>m\<bar> :: rat) < of_int (2 ^ 53)"
      using m by (simp only: of_int_less_iff)
    have "\<bar>z\<bar> = of_int \<bar>m\<bar> * 2 powi k" by (simp add: z abs_mult)
    also have "\<dots> < of_int (2 ^ 53) * 2 powi k"
      by (rule mult_strict_right_mono[OF mm]) simp
    also have "\<dots> = 2 powi (53 + k)" by (simp add: power_int_add)
    also have "\<dots> \<le> 2 powi e"
      using kk e52 by (intro power_int_increasing) simp_all
    finally have zlt: "\<bar>z\<bar> < 2 powi e" .
    define w where "w = (if x < 0 then - 1 else 1) * (2::rat) powi e"
    have "(2::rat) powi e = 2 ^ 52 * 2 powi k0"
      using power_int_add[of "2::rat" 52 "e - 52"] by (simp add: e52)
    then have "w = of_int ((if x < 0 then - 1 else 1) * 2 ^ 52) * f64_ulp x"
      by (simp add: w_def q)
    then have "\<bar>round_f64 x - x\<bar> \<le> \<bar>w - x\<bar>"
      using round_f64_grid[of x "(if x < 0 then - 1 else 1) * 2 ^ 52"] by simp
    also have "\<bar>w - x\<bar> = \<bar>x\<bar> - 2 powi e"
      using eb(1) by (auto simp: w_def abs_if)
    also have "\<dots> \<le> \<bar>z - x\<bar>" using zlt by linarith
    finally show ?thesis .
  qed
qed

lemma round_f64_exact: "is_f64 x \<Longrightarrow> round_f64 x = x"
  using round_f64_nearest[of x x] by simp

lemma round_f64_is_f64: "is_f64 (round_f64 x)"
proof (cases "x = 0")
  case True
  have "(0::rat) = of_int 0 * 2 powi 0" by simp
  then have "is_f64 0" unfolding is_f64_def by (intro exI[of _ 0] exI[of _ "0::int"]) simp
  then show ?thesis using True by (simp add: round_f64_def)
next
  case xn: False
  define e where "e = f64_exponent x"
  define k0 where "k0 = max e (- 1022) - 52"
  have q: "f64_ulp x = 2 powi k0" by (simp add: f64_ulp_def k0_def e_def)
  note eb = f64_exponent_bounds[OF xn, folded e_def]
  define y where "y = x / f64_ulp x"
  define m where "m = round_half_even y"
  have r: "round_f64 x = of_int m * 2 powi k0"
    using xn by (simp add: round_f64_def m_def y_def q)
  have k0: "- 1074 \<le> k0" "e + 1 \<le> k0 + 53" by (auto simp: k0_def)
  have "\<bar>x\<bar> < 2 powi (e + 1)" by (rule eb(2))
  also have "\<dots> \<le> 2 powi (k0 + 53)" using k0(2) by (intro power_int_increasing) simp_all
  also have "\<dots> = 2 ^ 53 * 2 powi k0" by (simp add: power_int_add)
  finally have "\<bar>y\<bar> < 2 ^ 53"
    by (simp add: y_def q abs_divide pos_divide_less_eq)
  then have "\<bar>of_int m :: rat\<bar> < 2 ^ 53 + 1"
    using round_half_even_near[of y, folded m_def] by linarith
  then have "(of_int \<bar>m\<bar> :: rat) < of_int (2 ^ 53 + 1)" by simp
  then have "\<bar>m\<bar> < 2 ^ 53 + 1" by (simp only: of_int_less_iff)
  then have mb: "\<bar>m\<bar> \<le> 2 ^ 53" by linarith
  show ?thesis
  proof (cases "\<bar>m\<bar> < 2 ^ 53")
    case True
    then show ?thesis unfolding is_f64_def r using k0(1) by blast
  next
    case False
    then have "\<bar>m\<bar> = 2 ^ 53" using mb by simp
    then have "m = 2 ^ 52 * 2 \<or> m = - (2 ^ 52) * 2" by (auto simp: abs_if split: if_splits)
    then have "of_int m * (2::rat) powi k0 = of_int (m div 2) * 2 powi (k0 + 1)"
      by (auto simp: power_int_add)
    moreover have "\<bar>m div 2\<bar> < 2 ^ 53" using \<open>\<bar>m\<bar> = 2 ^ 53\<close> by (auto simp: abs_if split: if_splits)
    ultimately show ?thesis unfolding is_f64_def r using k0(1)
      by (intro exI[of _ "m div 2"] exI[of _ "k0 + 1"]) simp
  qed
qed

lemma f64_mul_nearest: "nearest_f64 (x * y) (f64_mul x y)"
  unfolding nearest_f64_def f64_mul_def using round_f64_is_f64 round_f64_nearest by blast

lemma f64_of_int_nearest: "nearest_f64 (of_int n) (f64_of_int n)"
  unfolding nearest_f64_def f64_of_int_def using round_f64_is_f64 round_f64_nearest by blast

lemma f64_mul_zero [simp]: "f64_mul x 0 = 0"
  by (simp add: f64_mul_def round_f64_def)

lemma f64_mul_one: "is_f64 x \<Longrightarrow> f64_mul x 1 = x"
  by (simp add: f64_mul_def round_f64_exact)

lemma f64_of_int_is_f64: "is_f64 (f64_of_int n)"
  by (simp add: f64_of_int_def round_f64_is_f64)

lemma f64_mul_is_f64: "is_f64 (f64_mul x y)"
  by (simp add: f64_mul_def round_f64_is_f64)

lemma go_int_trunc:
  "go_int x =
     (let n = (if x < 0 then - 1 else 1) * \<lfloor>\<bar>x\<bar>\<rfloor>
      in if - (2 ^ 63) \<le> n \<and> n < 2 ^ 63 then n else - (2 ^ 63))"
  unfolding go_int_def Let_def by (auto simp: ceiling_def)

lemma go_int_zero [simp]: "go_int 0 = 0"
  by (simp add: go_int_def)

subsection \<open>Status constants and settlement\<close>

lemma TaskStatus_distinct [simp]:
  "TaskStatusSuccess \<noteq> TaskStatusSubmitted" "TaskStatusSuccess \<noteq> TaskStatusQueued"
  "TaskStatusSuccess \<noteq> TaskStatusInProgress" "TaskStatusSuccess \<noteq> []"
  "TaskStatusFailure \<noteq> TaskStatusSubmitted" "TaskStatusFailure \<noteq> TaskStatusQueued"
  "TaskStatusFailure \<noteq> TaskStatusInProgress" "TaskStatusFailure \<noteq> TaskStatusSuccess"
  "TaskStatusFailure \<noteq> []"
  "TaskStatusInProgress \<noteq> TaskStatusSubmitted" "TaskStatusInProgress \<noteq> TaskStatusQueued"
  "TaskStatusInProgress \<noteq> []"
  "TaskStatusQueued \<noteq> TaskStatusSubmitted" "TaskStatusQueued \<noteq> []"
  "TaskStatusSubmitted \<noteq> []"
  "TaskStatusUnknown \<noteq> TaskStatusSubmitted" "TaskStatusUnknown \<noteq> TaskStatusQueued"
  "TaskStatusUnknown \<noteq> TaskStatusInProgress" "TaskStatusUnknown \<noteq> TaskStatusSuccess"
  "TaskStatusUnknown \<noteq> TaskStatusFailure" "TaskStatusUnknown \<noteq> []"
  by (simp_all add: TaskStatus_defs)

lemma settle_Quota: "Quota (fst (settle e task r)) = actualQuota e task r"
  by (simp add: settle_def Let_def)

lemma resolveModelName_cong:
  "ModelName t' = ModelName t \<Longrightarrow> Data t' = Data t \<Longrightarrow> resolveModelName e t' r = resolveModelName e t r"
  by (simp add: resolveModelName_def Let_def)

lemma actualQuota_cong:
  "ModelName t' = ModelName t \<Longrightarrow> Data t' = Data t \<Longrightarrow> Group t' = Group t
    \<Longrightarrow> actualQuota e t' r = actualQuota e t r"
  by (simp add: actualQuota_def groupRatio_of_def resolveModelName_cong[of t' t])

lemma applyTaskResult_Success:
  assumes "ti_Status r = TaskStatusSuccess" "ti_TotalTokens r > 0"
  shows "applyTaskResult e taskId t r =
    (let t1 = t\<lparr>Status := TaskStatusSuccess, Progress := ''100%'',
                  FinishTime := (if FinishTime t = 0 then time_Now e else FinishTime t),
                  FailReason := ti_Url r\<rparr>;
         (t2, effs) = settle e t1 r;
         t3 = (if ti_Progress r \<noteq> [] then t2\<lparr>Progress := ti_Progress r\<rparr> else t2)
     in (None, t3, effs @ [Task_Update t3 (Update_ok e)]))"
  using assms by (simp add: applyTaskResult_def statusSwitch_def Let_def split: prod.splits)


section \<open>Settlement arithmetic\<close>

lemma settle_supplement:
  assumes "actualQuota e t r - Quota t > 0" "DecreaseUserQuota_ok e"
  shows "settle e t r =
     (t\<lparr>Quota := actualQuota e t r\<rparr>,
      DecreaseUserQuota (UserId t) (actualQuota e t r - Quota t) True
        # supplementLog e t r (actualQuota e t r - Quota t))"
  using assms by (simp add: settle_def Let_def)

lemma supplementLog_entry:
  "\<exists>ctx p. supplementLog e t r d =
      [RecordConsumeLog ctx (UserId t) p, UpdateUserUsedQuotaAndRequestCount (UserId t) d,
       UpdateChannelUsedQuota (ChannelId t) d] \<and>
     p_Quota p = d \<and> p_other_adjustment_type p = ''supplement''"
  by (simp add: supplementLog_def Let_def)

text \<open>
  Claim C1, as the code has it. On a Success transition with usage tokens above zero the
  call returns no error. The billed product is computed in float64, left to right: the
  token count converted to a double, then multiplied by the completion rate, the model
  rate and the group rate, each result being a nearest double of the exact one. As long
  as no partial product leaves the finite range, \<open>actualQuota\<close> and the task's quota
  afterwards are that product with its fraction dropped (truncated toward zero, not
  rounded to nearest; the smallest 64-bit integer if the result does not fit 64 bits),
  replaced by 1 when that is at most 0 while the model rate is positive. With reserved
  quota 50, 80 tokens, all three rates 1 and a debit that succeeds: \<open>actualQuota\<close> is 80,
  the delta is 30, the user is debited 30, a consumption entry tagged \<^verbatim>\<open>supplement\<close> with
  quota 30 is written, and the task's quota is 80.
\<close>

theorem C1_settlement_truncates:
  assumes "ti_Status r = TaskStatusSuccess" and "ti_TotalTokens r > 0"
  shows
    "(let name = resolveModelName e t r;
          modelRate = modelRatio_of e name;
          completionRate = completionRatio_of e name;
          groupRate = groupRatio_of e t;
          tokens = f64_of_int (ti_TotalTokens r);
          byCompletion = f64_mul tokens completionRate;
          byModel = f64_mul byCompletion modelRate;
          product = f64_mul byModel groupRate;
          n = (if product < 0 then - 1 else 1) * \<lfloor>\<bar>product\<bar>\<rfloor>;
          q = (if - (2 ^ 63) \<le> n \<and> n < 2 ^ 63 then n else - (2 ^ 63));
          aq = (if q \<le> 0 \<and> modelRate > 0 then 1 else q)
      in nearest_f64 (of_int (ti_TotalTokens r)) tokens \<and>
         nearest_f64 (tokens * completionRate) byCompletion \<and>
         nearest_f64 (byCompletion * modelRate) byModel \<and>
         nearest_f64 (byModel * groupRate) product \<and>
         (case applyTaskResult e taskId t r of
            (err, t', effs) \<Rightarrow>
              err = None \<and>
              (f64_finite byCompletion \<and> f64_finite byModel \<and> f64_finite product \<longrightarrow>
                 actualQuota e t r = aq \<and> Quota t' = aq) \<and>
              (Quota t = 50 \<and> ti_TotalTokens r = 80 \<and> completionRate = 1 \<and>
               modelRate = 1 \<and> groupRate = 1 \<and> DecreaseUserQuota_ok e \<longrightarrow>
                 f64_finite byCompletion \<and> f64_finite byModel \<and> f64_finite product \<and>
                 aq = 80 \<and> aq - Quota t = 30 \<and> Quota t' = 80 \<and>
                 DecreaseUserQuota (UserId t) 30 True \<in> set effs \<and>
                 (\<exists>ctx p. RecordConsumeLog ctx (UserId t) p \<in> set effs \<and> p_Quota p = 30 \<and>
                           p_other_adjustment_type p = ''supplement''))))"
proof -
  define t1 where "t1 = t\<lparr>Status := TaskStatusSuccess, Progress := ''100%'',
                  FinishTime := (if FinishTime t = 0 then time_Now e else FinishTime t),
                  FailReason := ti_Url r\<rparr>"
  define name where "name = resolveModelName e t r"
  define tokens where "tokens = f64_of_int (ti_TotalTokens r)"
  define byCompletion where "byCompletion = f64_mul tokens (completionRatio_of e name)"
  define byModel where "byModel = f64_mul byCompletion (modelRatio_of e name)"
  define product where "product = f64_mul byModel (groupRatio_of e t)"
  define n where "n = (if product < 0 then - 1 else 1) * \<lfloor>\<bar>product\<bar>\<rfloor>"
  define q where "q = (if - (2 ^ 63) \<le> n \<and> n < 2 ^ 63 then n else - (2 ^ 63))"
  define aq where "aq = (if q \<le> 0 \<and> modelRatio_of e name > 0 then 1 else q)"
  have near: "nearest_f64 (of_int (ti_TotalTokens r)) tokens"
    "nearest_f64 (tokens * completionRatio_of e name) byCompletion"
    "nearest_f64 (byCompletion * modelRatio_of e name) byModel"
    "nearest_f64 (byModel * groupRatio_of e t) product"
    unfolding tokens_def byCompletion_def byModel_def product_def
    by (rule f64_of_int_nearest f64_mul_nearest)+
  have aq1: "actualQuota e t1 r = actualQuota e t r"
    by (rule actualQuota_cong) (simp_all add: t1_def)
  have gq: "go_int product = q"
    unfolding go_int_trunc Let_def q_def n_def by (rule refl)
  have aq: "actualQuota e t r = aq"
    unfolding actualQuota_def actualQuota_of_def Let_def name_def[symmetric]
      tokens_def[symmetric] byCompletion_def[symmetric] byModel_def[symmetric]
      product_def[symmetric] gq aq_def by (rule refl)
  obtain t2 effs where st: "settle e t1 r = (t2, effs)" by (cases "settle e t1 r")
  have q2: "Quota t2 = aq" using settle_Quota[of e t1 r] st aq1 aq by simp
  define t3 where "t3 = (if ti_Progress r \<noteq> [] then t2\<lparr>Progress := ti_Progress r\<rparr> else t2)"
  have app: "applyTaskResult e taskId t r = (None, t3, effs @ [Task_Update t3 (Update_ok e)])"
    using applyTaskResult_Success[OF assms, of e taskId t] st by (simp add: t1_def t3_def Let_def)
  have q3: "Quota t3 = aq" using q2 by (simp add: t3_def)
  have scen: "DecreaseUserQuota (UserId t) 30 True \<in> set effs \<and>
       (\<exists>ctx p. RecordConsumeLog ctx (UserId t) p \<in> set effs \<and> p_Quota p = 30 \<and>
                          p_other_adjustment_type p = ''supplement'')"
    if h: "Quota t = 50" "aq = 80" "DecreaseUserQuota_ok e"
  proof -
    have d: "actualQuota e t1 r - Quota t1 = 30" using h aq aq1 by (simp add: t1_def)
    have "settle e t1 r = (t1\<lparr>Quota := actualQuota e t1 r\<rparr>,
      DecreaseUserQuota (UserId t1) 30 True # supplementLog e t1 r 30)"
      using settle_supplement[of e t1 r] d h(3) by simp
    then have effs: "effs = DecreaseUserQuota (UserId t) 30 True # supplementLog e t1 r 30"
      using st by (simp add: t1_def)
    obtain ctx p where sl: "supplementLog e t1 r 30 =
      [RecordConsumeLog ctx (UserId t1) p, UpdateUserUsedQuotaAndRequestCount (UserId t1) 30,
       UpdateChannelUsedQuota (ChannelId t1) 30]" "p_Quota p = 30" "p_other_adjustment_type p = ''supplement''"
      using supplementLog_entry[of e t1 r 30] by blast
    have u: "UserId t1 = UserId t" by (simp add: t1_def)
    show ?thesis using effs sl u by auto
  qed
  have eighty: "f64_of_int 80 = 80" "f64_mul 80 1 = 80" "f64_finite 80"
    by code_simp+
  have p80: "byCompletion = 80 \<and> byModel = 80 \<and> product = 80"
    if "ti_TotalTokens r = 80" "completionRatio_of e name = 1"
      "modelRatio_of e name = 1" "groupRatio_of e t = 1"
    using that eighty by (simp add: product_def byModel_def byCompletion_def tokens_def)
  have aq80: "aq = 80" if "product = 80" "modelRatio_of e name = 1"
    using that by (simp add: aq_def q_def n_def)
  show ?thesis
    unfolding Let_def name_def[symmetric] tokens_def[symmetric] byCompletion_def[symmetric]
      byModel_def[symmetric] product_def[symmetric] n_def[symmetric] q_def[symmetric]
      aq_def[symmetric] app
    using near aq q3 scen p80 aq80 eighty(3) by auto
qed

theorem C1_settlement_truncates_witness:
  "ti_Status success80 = TaskStatusSuccess \<and> ti_TotalTokens success80 > 0 \<and>
   Quota task0 = 50 \<and> ti_TotalTokens success80 = 80 \<and>
   completionRatio_of env0 (resolveModelName env0 task0 success80) = 1 \<and>
   modelRatio_of env0 (resolveModelName env0 task0 success80) = 1 \<and>
   groupRatio_of env0 task0 = 1 \<and> DecreaseUserQuota_ok env0 \<and>
   actualQuota env0 task0 success80 = 80 \<and>
   Quota (fst (snd (applyTaskResult env0 ''cgt-1'' task0 success80))) = 80 \<and>
   DecreaseUserQuota 7 30 True \<in> set (snd (snd (applyTaskResult env0 ''cgt-1'' task0 success80))) \<and>
   ti_Status success10 = TaskStatusSuccess \<and> ti_TotalTokens success10 = 10 \<and>
   completionRatio_of point7_env (resolveModelName point7_env task0 success10) = seven_tenths \<and>
   f64_finite (f64_mul (f64_of_int 10) seven_tenths) \<and>
   f64_mul (f64_of_int 10) seven_tenths = 7 \<and> \<lfloor>10 * seven_tenths\<rfloor> = 6 \<and>
   actualQuota point7_env task0 success10 = 7 \<and>
   Quota (fst (snd (applyTaskResult point7_env ''cgt-1'' task0 success10))) = 7"
proof -
  have h1: "ti_Status success80 = TaskStatusSuccess" by (simp add: success80_def)
  have h2: "ti_TotalTokens success80 > 0" by (simp add: success80_def)
  have h3: "Quota task0 = 50 \<and> ti_TotalTokens success80 = 80 \<and>
   completionRatio_of env0 (resolveModelName env0 task0 success80) = 1 \<and>
   modelRatio_of env0 (resolveModelName env0 task0 success80) = 1 \<and>
   groupRatio_of env0 task0 = 1 \<and> DecreaseUserQuota_ok env0 \<and> UserId task0 = 7"
    by (simp add: task0_def success80_def env0_def completionRatio_of_def modelRatio_of_def
        groupRatio_of_def)
  have a: "actualQuota env0 task0 success80 = 80 \<and>
   Quota (fst (snd (applyTaskResult env0 ''cgt-1'' task0 success80))) = 80 \<and>
   DecreaseUserQuota 7 30 True \<in> set (snd (snd (applyTaskResult env0 ''cgt-1'' task0 success80)))"
    using C1_settlement_truncates[OF h1 h2, of env0 task0 "''cgt-1''"] h3
    by (auto simp: Let_def split: prod.splits)
  have k1: "ti_Status success10 = TaskStatusSuccess" by (simp add: success10_def success80_def)
  have k2: "ti_TotalTokens success10 > 0" "ti_TotalTokens success10 = 10"
    by (simp_all add: success10_def)
  have k3: "completionRatio_of point7_env (resolveModelName point7_env task0 success10) = seven_tenths"
    "modelRatio_of point7_env (resolveModelName point7_env task0 success10) = 1"
    "groupRatio_of point7_env task0 = 1"
    by code_simp+
  have k4: "f64_of_int 10 = 10" "f64_mul 10 seven_tenths = 7" "f64_mul 7 1 = 7" "f64_finite 7"
    "\<lfloor>10 * seven_tenths\<rfloor> = 6"
    by code_simp+
  have b: "actualQuota point7_env task0 success10 = 7 \<and>
   Quota (fst (snd (applyTaskResult point7_env ''cgt-1'' task0 success10))) = 7"
    using C1_settlement_truncates[OF k1 k2(1), of point7_env task0 "''cgt-1''"]
    unfolding Let_def k2(2) k3 k4(1,2,3)
    using k4(4) by (auto split: prod.splits)
  show ?thesis using h1 h2 h3 a k1 k2(2) k3(1) k4 b by simp
qed


text \<open>
  Claim C1 as stated fails: 7 tokens at completion rate 0.25 (other rates 1) give the
  product 1.75, exact in float64, which rounds to 2, while the code bills 1.
\<close>

theorem C1_round_counterexample:
  "ti_Status success7 = TaskStatusSuccess \<and> ti_TotalTokens success7 > 0 \<and>
   (let name = resolveModelName quarter_env task0 success7 in
    round (of_int (ti_TotalTokens success7) * completionRatio_of quarter_env name
             * modelRatio_of quarter_env name * groupRatio_of quarter_env task0) = 2) \<and>
   actualQuota quarter_env task0 success7 = 1 \<and>
   Quota (fst (snd (applyTaskResult quarter_env ''cgt-1'' task0 success7))) = 1"
  by code_simp


section \<open>Neutral rates\<close>

lemma resolveModelName_env:
  assumes h: "json_model e' = json_model e"
  shows "resolveModelName e' t r = resolveModelName e t r"
  unfolding resolveModelName_def h by (rule refl)

lemma actualQuota_model_neutral:
  assumes "GetModelRatio e (resolveModelName e t r) = 0"
  shows "actualQuota e t r =
     actualQuota (e\<lparr>GetModelRatio := (GetModelRatio e)(resolveModelName e t r := 1)\<rparr>) t r"
proof -
  let ?e' = "e\<lparr>GetModelRatio := (GetModelRatio e)(resolveModelName e t r := 1)\<rparr>"
  have n: "resolveModelName ?e' t r = resolveModelName e t r"
    by (rule resolveModelName_env) simp
  have m: "modelRatio_of ?e' (resolveModelName e t r) = modelRatio_of e (resolveModelName e t r)"
    using assms by (simp add: modelRatio_of_def)
  have c: "completionRatio_of ?e' (resolveModelName e t r) = completionRatio_of e (resolveModelName e t r)"
    by (simp add: completionRatio_of_def)
  have g: "groupRatio_of ?e' t = groupRatio_of e t"
    by (simp add: groupRatio_of_def)
  show ?thesis unfolding actualQuota_def Let_def n m c g ..
qed

lemma actualQuota_completion_neutral:
  assumes "GetCompletionRatio e (resolveModelName e t r) = 0"
  shows "actualQuota e t r =
     actualQuota (e\<lparr>GetCompletionRatio := (GetCompletionRatio e)(resolveModelName e t r := 1)\<rparr>) t r"
proof -
  let ?e' = "e\<lparr>GetCompletionRatio := (GetCompletionRatio e)(resolveModelName e t r := 1)\<rparr>"
  have n: "resolveModelName ?e' t r = resolveModelName e t r"
    by (rule resolveModelName_env) simp
  have m: "modelRatio_of ?e' (resolveModelName e t r) = modelRatio_of e (resolveModelName e t r)"
    by (simp add: modelRatio_of_def)
  have c: "completionRatio_of ?e' (resolveModelName e t r) = completionRatio_of e (resolveModelName e t r)"
    using assms by (simp add: completionRatio_of_def)
  have g: "groupRatio_of ?e' t = groupRatio_of e t"
    by (simp add: groupRatio_of_def)
  show ?thesis unfolding actualQuota_def Let_def n m c g ..
qed

lemma actualQuota_group_zero:
  assumes "groupRatio_of e t = 0"
  shows "actualQuota e t r = (if modelRatio_of e (resolveModelName e t r) > 0 then 1 else 0)"
  using assms by (simp add: actualQuota_def actualQuota_of_def)

lemma ratio_nonzero:
  "modelRatio_of e name \<noteq> 0" "completionRatio_of e name \<noteq> 0"
  by (simp_all add: modelRatio_of_def completionRatio_of_def Let_def)

text \<open>
  Claim C2, as the code has it. The model rate and the completion rate entering the
  product are never zero: a lookup that gives 0 bills exactly as a lookup that gives 1.
  The group rate is used as looked up (for group \<^verbatim>\<open>default\<close> when the task has none): a
  group rate of 0 makes the product 0, so that the quota is 1 when the model rate is
  positive and 0 otherwise.
\<close>

theorem C2_zero_rates:
  "(let name = resolveModelName e t r;
        groupName = (if Group t = [] then ''default'' else Group t)
    in modelRatio_of e name \<noteq> 0 \<and> completionRatio_of e name \<noteq> 0 \<and>
       (GetModelRatio e name = 0 \<longrightarrow>
          actualQuota e t r = actualQuota (e\<lparr>GetModelRatio := (GetModelRatio e)(name := 1)\<rparr>) t r) \<and>
       (GetCompletionRatio e name = 0 \<longrightarrow>
          actualQuota e t r =
            actualQuota (e\<lparr>GetCompletionRatio := (GetCompletionRatio e)(name := 1)\<rparr>) t r) \<and>
       groupRatio_of e t = GetGroupRatio e groupName \<and>
       (GetGroupRatio e groupName = 0 \<longrightarrow>
          actualQuota e t r = (if modelRatio_of e name > 0 then 1 else 0)))"
proof -
  have g: "groupRatio_of e t = GetGroupRatio e (if Group t = [] then ''default'' else Group t)"
    by (simp add: groupRatio_of_def)
  show ?thesis
    unfolding Let_def
    using ratio_nonzero[of e "resolveModelName e t r"] actualQuota_model_neutral[of e t r]
      actualQuota_completion_neutral[of e t r] actualQuota_group_zero[of e t r] g
    by metis
qed

theorem C2_zero_rates_witness:
  "GetModelRatio zero_model_env (resolveModelName zero_model_env task0 success80) = 0 \<and>
   GetCompletionRatio zero_model_env (resolveModelName zero_model_env task0 success80) = 0 \<and>
   GetGroupRatio zero_group_env ''default'' = 0 \<and> Group task0 = ''default'' \<and>
   actualQuota zero_model_env task0 success80 = 80 \<and>
   actualQuota zero_group_env task0 success80 = 1"
proof -
  have a: "GetModelRatio zero_model_env (resolveModelName zero_model_env task0 success80) = 0"
    "GetCompletionRatio zero_model_env (resolveModelName zero_model_env task0 success80) = 0"
    by (simp_all add: zero_model_env_def)
  have b: "GetGroupRatio zero_group_env ''default'' = 0" "Group task0 = ''default''"
    by (simp_all add: zero_group_env_def task0_def)
  have c: "actualQuota (zero_model_env\<lparr>GetModelRatio :=
      (GetModelRatio zero_model_env)(resolveModelName zero_model_env task0 success80 := 1)\<rparr>) task0 success80 = 80"
    by code_simp
  have d: "modelRatio_of zero_group_env (resolveModelName zero_group_env task0 success80) > 0"
    by (simp add: modelRatio_of_def zero_group_env_def env0_def)
  show ?thesis
    using C2_zero_rates[of zero_model_env task0 success80] C2_zero_rates[of zero_group_env task0 success80]
      a b c d by (simp add: Let_def)
qed


text \<open>
  Claim C2 as stated fails for the group rate: with group rate 0 and 80 tokens the
  quota is 1, where a neutral rate would give 80.
\<close>

theorem C2_group_rate_counterexample:
  "GetGroupRatio zero_group_env ''default'' = 0 \<and> Group task0 = ''default'' \<and>
   groupRatio_of zero_group_env task0 \<noteq> 1 \<and>
   actualQuota zero_group_env task0 success80 = 1 \<and>
   actualQuota (zero_group_env\<lparr>GetGroupRatio := (\<lambda>_. 1)\<rparr>) task0 success80 = 80"
  by code_simp

section \<open>The adaptor's status mapping\<close>

lemma ToLower_ASCII: "isASCII s \<Longrightarrow> ToLower M s = map lower_byte s"
  by (simp add: ToLower_def)

text \<open>
  Claim C3, as the code has it. For every payload that decodes, \<^verbatim>\<open>ParseTaskResult\<close>
  returns a result carrying the vendor id, by this priority. A non-empty error code gives
  Failure, 100%, reason \<^verbatim>\<open>code: message\<close>, whatever the status field holds. Otherwise an
  empty status gives Unknown, 0%, with the source's format-mismatch message. Otherwise
  the status is lowered by \<^verbatim>\<open>strings.ToLower\<close> (byte-wise on ASCII strings):
  \<^verbatim>\<open>queued\<close> gives Queued 20%, \<^verbatim>\<open>running\<close> gives InProgress 60%, \<^verbatim>\<open>succeeded\<close> gives
  Success 100% with the video URL and the encoded snapshot as reason, \<^verbatim>\<open>failed\<close> gives
  Failure 100% with the vendor message or the source's fallback message, and any other
  string gives Unknown 0% whose reason is the source's message prefix (the UTF-8 text
  \<open>msg_unknown_status\<close>, not an English text) followed by the status as received.
\<close>

theorem C3_parse_priority:
  assumes "json_Unmarshal L respBody = Some fr"
  shows "\<exists>res. ParseTaskResult L respBody = Some res \<and> ti_TaskID res = fr_ID fr \<and>
    (let s = ToLower (unicode_ToLower L) (fr_Status fr) in
     (isASCII (fr_Status fr) \<longrightarrow> s = map lower_byte (fr_Status fr)) \<and>
     (fr_Error_Code fr \<noteq> [] \<longrightarrow>
        ti_Status res = TaskStatusFailure \<and> ti_Progress res = ''100%'' \<and>
        ti_Reason res = fr_Error_Code fr @ '': '' @ fr_Error_Message fr) \<and>
     (fr_Error_Code fr = [] \<and> fr_Status fr = [] \<longrightarrow>
        ti_Status res = TaskStatusUnknown \<and> ti_Progress res = ''0%'' \<and>
        ti_Reason res = msg_unknown_format) \<and>
     (fr_Error_Code fr = [] \<and> fr_Status fr \<noteq> [] \<longrightarrow>
        (s = ''queued'' \<longrightarrow>
           ti_Status res = TaskStatusQueued \<and> ti_Progress res = ''20%'') \<and>
        (s = ''running'' \<longrightarrow>
           ti_Status res = TaskStatusInProgress \<and> ti_Progress res = ''60%'') \<and>
        (s = ''succeeded'' \<longrightarrow>
           ti_Status res = TaskStatusSuccess \<and> ti_Progress res = ''100%'' \<and>
           ti_Url res = fr_Content_VideoURL fr \<and>
           (\<forall>snapshot. json_Marshal L (successData fr) = Some snapshot \<longrightarrow>
                       ti_Reason res = snapshot)) \<and>
        (s = ''failed'' \<longrightarrow>
           ti_Status res = TaskStatusFailure \<and> ti_Progress res = ''100%'' \<and>
           ti_Reason res = (if fr_Error_Message fr \<noteq> [] then fr_Error_Message fr
                            else msg_task_failed)) \<and>
        (s \<notin> {''queued'', ''running'', ''succeeded'', ''failed''} \<longrightarrow>
           ti_Status res = TaskStatusUnknown \<and> ti_Progress res = ''0%'' \<and>
           ti_Reason res = msg_unknown_status @ fr_Status fr)))"
proof -
  have p: "ParseTaskResult L respBody = Some (parseFetchResponse L fr)"
    using assms by (simp add: ParseTaskResult_def)
  have a: "isASCII (fr_Status fr) \<longrightarrow>
      ToLower (unicode_ToLower L) (fr_Status fr) = map lower_byte (fr_Status fr)"
    by (simp add: ToLower_ASCII)
  have e: "fr_Error_Code fr \<noteq> [] \<longrightarrow>
        ti_Status (parseFetchResponse L fr) = TaskStatusFailure \<and>
        ti_Progress (parseFetchResponse L fr) = ''100%'' \<and>
        ti_Reason (parseFetchResponse L fr) = fr_Error_Code fr @ '': '' @ fr_Error_Message fr"
    by (simp add: parseFetchResponse_def TaskInfo_zero_def)
  have u: "fr_Error_Code fr = [] \<and> fr_Status fr = [] \<longrightarrow>
        ti_Status (parseFetchResponse L fr) = TaskStatusUnknown \<and>
        ti_Progress (parseFetchResponse L fr) = ''0%'' \<and>
        ti_Reason (parseFetchResponse L fr) = msg_unknown_format"
    by (simp add: parseFetchResponse_def TaskInfo_zero_def)
  have i: "ti_TaskID (parseFetchResponse L fr) = fr_ID fr"
    by (simp add: parseFetchResponse_def TaskInfo_zero_def Let_def split: option.splits)
  have m: "fr_Error_Code fr = [] \<and> fr_Status fr \<noteq> [] \<longrightarrow>
        (ToLower (unicode_ToLower L) (fr_Status fr) = ''queued'' \<longrightarrow>
           ti_Status (parseFetchResponse L fr) = TaskStatusQueued \<and>
           ti_Progress (parseFetchResponse L fr) = ''20%'') \<and>
        (ToLower (unicode_ToLower L) (fr_Status fr) = ''running'' \<longrightarrow>
           ti_Status (parseFetchResponse L fr) = TaskStatusInProgress \<and>
           ti_Progress (parseFetchResponse L fr) = ''60%'') \<and>
        (ToLower (unicode_ToLower L) (fr_Status fr) = ''succeeded'' \<longrightarrow>
           ti_Status (parseFetchResponse L fr) = TaskStatusSuccess \<and>
           ti_Progress (parseFetchResponse L fr) = ''100%'' \<and>
           ti_Url (parseFetchResponse L fr) = fr_Content_VideoURL fr \<and>
           (\<forall>snapshot. json_Marshal L (successData fr) = Some snapshot \<longrightarrow>
                       ti_Reason (parseFetchResponse L fr) = snapshot)) \<and>
        (ToLower (unicode_ToLower L) (fr_Status fr) = ''failed'' \<longrightarrow>
           ti_Status (parseFetchResponse L fr) = TaskStatusFailure \<and>
           ti_Progress (parseFetchResponse L fr) = ''100%'' \<and>
           ti_Reason (parseFetchResponse L fr) =
             (if fr_Error_Message fr \<noteq> [] then fr_Error_Message fr else msg_task_failed)) \<and>
        (ToLower (unicode_ToLower L) (fr_Status fr)
           \<notin> {''queued'', ''running'', ''succeeded'', ''failed''} \<longrightarrow>
           ti_Status (parseFetchResponse L fr) = TaskStatusUnknown \<and>
           ti_Progress (parseFetchResponse L fr) = ''0%'' \<and>
           ti_Reason (parseFetchResponse L fr) = msg_unknown_status @ fr_Status fr)"
    by (simp add: parseFetchResponse_def TaskInfo_zero_def Let_def split: option.splits)
  show ?thesis
    unfolding Let_def p using a e u i m by blast
qed

theorem C3_parse_priority_witness:
  "map_option ti_Status (ParseTaskResult (lib_of fr_rate_limited) ''body'') = Some TaskStatusFailure \<and>
   map_option ti_Reason (ParseTaskResult (lib_of fr_rate_limited) ''body'')
      = Some ''rate_limited: slow down'' \<and>
   map_option ti_Status (ParseTaskResult (lib_of fr0) ''body'') = Some TaskStatusUnknown \<and>
   map_option ti_Reason (ParseTaskResult (lib_of fr0) ''body'') = Some msg_unknown_format \<and>
   map_option ti_Status (ParseTaskResult (lib_of fr_queued) ''body'') = Some TaskStatusQueued \<and>
   map_option ti_Progress (ParseTaskResult (lib_of fr_queued) ''body'') = Some ''20%'' \<and>
   map_option ti_Status (ParseTaskResult (lib_of fr_running) ''body'') = Some TaskStatusInProgress \<and>
   map_option ti_Progress (ParseTaskResult (lib_of fr_running) ''body'') = Some ''60%'' \<and>
   map_option ti_Status (ParseTaskResult (lib_of fr_succeeded) ''body'') = Some TaskStatusSuccess \<and>
   map_option ti_Url (ParseTaskResult (lib_of fr_succeeded) ''body'')
      = Some ''https://cdn.example/v.mp4'' \<and>
   map_option ti_Reason (ParseTaskResult (lib_of fr_succeeded) ''body'') = Some ''{}'' \<and>
   map_option ti_Status (ParseTaskResult (lib_of fr_failed) ''body'') = Some TaskStatusFailure \<and>
   map_option ti_Reason (ParseTaskResult (lib_of fr_failed) ''body'') = Some msg_task_failed \<and>
   map_option ti_Status (ParseTaskResult (lib_of fr_paused) ''body'') = Some TaskStatusUnknown \<and>
   map_option ti_Reason (ParseTaskResult (lib_of fr_paused) ''body'')
      = Some (msg_unknown_status @ ''paused'')"
proof -
  have d: "json_Unmarshal (lib_of fr) ''body'' = Some fr" for fr
    by (simp add: lib_of_def)
  have m: "json_Marshal (lib_of fr) x = Some ''{}''" for fr x
    by (simp add: lib_of_def)
  have e: "fr_Error_Code fr_rate_limited = ''rate_limited''"
    "fr_Error_Message fr_rate_limited = ''slow down''"
    by (simp_all add: fr_rate_limited_def)
  have z: "fr_Error_Code fr0 = []" "fr_Status fr0 = []"
    by (simp_all add: fr0_def)
  have q: "fr_Error_Code fr_queued = []" "fr_Status fr_queued \<noteq> []"
    "ToLower (unicode_ToLower (lib_of fr_queued)) (fr_Status fr_queued) = ''queued''"
    by code_simp+
  have r: "fr_Error_Code fr_running = []" "fr_Status fr_running \<noteq> []"
    "ToLower (unicode_ToLower (lib_of fr_running)) (fr_Status fr_running) = ''running''"
    by code_simp+
  have s: "fr_Error_Code fr_succeeded = []" "fr_Status fr_succeeded \<noteq> []"
    "ToLower (unicode_ToLower (lib_of fr_succeeded)) (fr_Status fr_succeeded) = ''succeeded''"
    "fr_Content_VideoURL fr_succeeded = ''https://cdn.example/v.mp4''"
    by code_simp+
  have f: "fr_Error_Code fr_failed = []" "fr_Status fr_failed \<noteq> []"
    "ToLower (unicode_ToLower (lib_of fr_failed)) (fr_Status fr_failed) = ''failed''"
    "fr_Error_Message fr_failed = []"
    by code_simp+
  have p: "fr_Error_Code fr_paused = []" "fr_Status fr_paused = ''paused''"
    "ToLower (unicode_ToLower (lib_of fr_paused)) (fr_Status fr_paused) = ''paused''"
    by code_simp+
  have 1: "map_option ti_Status (ParseTaskResult (lib_of fr_rate_limited) ''body'') = Some TaskStatusFailure \<and>
   map_option ti_Reason (ParseTaskResult (lib_of fr_rate_limited) ''body'')
      = Some ''rate_limited: slow down''"
    using C3_parse_priority[OF d[of fr_rate_limited]] e by (auto simp: Let_def)
  have 2: "map_option ti_Status (ParseTaskResult (lib_of fr0) ''body'') = Some TaskStatusUnknown \<and>
   map_option ti_Reason (ParseTaskResult (lib_of fr0) ''body'') = Some msg_unknown_format"
    using C3_parse_priority[OF d[of fr0]] z by (auto simp: Let_def)
  have 3: "map_option ti_Status (ParseTaskResult (lib_of fr_queued) ''body'') = Some TaskStatusQueued \<and>
   map_option ti_Progress (ParseTaskResult (lib_of fr_queued) ''body'') = Some ''20%''"
    using C3_parse_priority[OF d[of fr_queued]] q by (auto simp: Let_def)
  have 4: "map_option ti_Status (ParseTaskResult (lib_of fr_running) ''body'') = Some TaskStatusInProgress \<and>
   map_option ti_Progress (ParseTaskResult (lib_of fr_running) ''body'') = Some ''60%''"
    using C3_parse_priority[OF d[of fr_running]] r by (auto simp: Let_def)
  have 5: "map_option ti_Status (ParseTaskResult (lib_of fr_succeeded) ''body'') = Some TaskStatusSuccess \<and>
   map_option ti_Url (ParseTaskResult (lib_of fr_succeeded) ''body'')
      = Some ''https://cdn.example/v.mp4'' \<and>
   map_option ti_Reason (ParseTaskResult (lib_of fr_succeeded) ''body'') = Some ''{}''"
    using C3_parse_priority[OF d[of fr_succeeded]] s m[of fr_succeeded "successData fr_succeeded"]
    by (auto simp: Let_def)
  have 6: "map_option ti_Status (ParseTaskResult (lib_of fr_failed) ''body'') = Some TaskStatusFailure \<and>
   map_option ti_Reason (ParseTaskResult (lib_of fr_failed) ''body'') = Some msg_task_failed"
    using C3_parse_priority[OF d[of fr_failed]] f by (auto simp: Let_def)
  have 7: "map_option ti_Status (ParseTaskResult (lib_of fr_paused) ''body'') = Some TaskStatusUnknown \<and>
   map_option ti_Reason (ParseTaskResult (lib_of fr_paused) ''body'')
      = Some (msg_unknown_status @ ''paused'')"
    using C3_parse_priority[OF d[of fr_paused]] p by (auto simp: Let_def)
  show ?thesis using 1 2 3 4 5 6 7 by blast
qed

text \<open>
  Claim C3 as stated fails on the literal of the last reason: for status \<^verbatim>\<open>paused\<close> the
  reason is the source's own prefix followed by \<^verbatim>\<open>paused\<close>, not
  \<^verbatim>\<open>unrecognized status: paused\<close>.
\<close>

theorem C3_reason_literal_counterexample:
  "json_Unmarshal (lib_of fr_paused) ''body'' = Some fr_paused \<and>
   fr_Error_Code fr_paused = [] \<and> fr_Status fr_paused = ''paused'' \<and>
   map_option ti_Status (ParseTaskResult (lib_of fr_paused) ''body'') = Some TaskStatusUnknown \<and>
   map_option ti_Reason (ParseTaskResult (lib_of fr_paused) ''body'')
     = Some (msg_unknown_status @ ''paused'') \<and>
   map_option ti_Reason (ParseTaskResult (lib_of fr_paused) ''body'')
     \<noteq> Some ''unrecognized status: paused''"
  by code_simp

section \<open>The status transitions\<close>

lemma applyTaskResult_Failure:
  assumes "ti_Status r = TaskStatusFailure"
  shows "applyTaskResult e taskId t r =
    (let t1 = t\<lparr>Status := TaskStatusFailure,
                  Progress := (if ti_Progress r \<noteq> [] then ti_Progress r else ''100%''),
                  FinishTime := (if FinishTime t = 0 then time_Now e else FinishTime t),
                  FailReason := ti_Reason r\<rparr>
     in (None, t1,
         (if Quota t \<noteq> 0 then
            [IncreaseUserQuota (UserId t) (Quota t) False (IncreaseUserQuota_ok e),
             RecordLog (UserId t) LogTypeSystem (FailRefundContent (TaskID t) (Quota t))]
          else []) @ [Task_Update t1 (Update_ok e)]))"
  using assms by (simp add: applyTaskResult_def statusSwitch_def Let_def)


lemma persist_Nil [simp]: "persist [] t = t"
  by (simp add: persist_def)

lemma applyTaskResult_InProgress:
  assumes "ti_Status r = TaskStatusInProgress"
  shows "applyTaskResult e taskId t r =
    (let t1 = t\<lparr>Status := TaskStatusInProgress,
                  Progress := (if ti_Progress r \<noteq> [] then ti_Progress r else ''30%''),
                  StartTime := (if StartTime t = 0 then time_Now e else StartTime t)\<rparr>
     in (None, t1, [Task_Update t1 (Update_ok e)]))"
  using assms by (simp add: applyTaskResult_def statusSwitch_def Let_def)

lemma applyTaskResult_Progress:
  assumes "applyTaskResult e taskId t r = (None, t', effs)" "ti_Progress r \<noteq> []"
  shows "Progress t' = ti_Progress r"
  using assms
  by (auto simp: applyTaskResult_def Let_def split: if_splits option.splits prod.splits)

lemma applyTaskResult_persisted:
  assumes "applyTaskResult e taskId t r = (None, t', effs)"
  shows "\<exists>ledger. effs = ledger @ [Task_Update t' (Update_ok e)]"
  using assms
  by (auto simp: applyTaskResult_def Let_def split: if_splits option.splits prod.splits)

lemma parse_running:
  assumes "fr_Error_Code fr = []" "ToLower (unicode_ToLower L) (fr_Status fr) = ''running''"
  shows "parseFetchResponse L fr =
     TaskInfo_zero\<lparr>ti_TaskID := fr_ID fr, ti_Status := TaskStatusInProgress,
                   ti_Progress := ''60%''\<rparr>"
proof -
  have "fr_Status fr \<noteq> []"
    using assms(2) by (auto simp: ToLower_def isASCII_def)
  then show ?thesis using assms by (simp add: parseFetchResponse_def Let_def)
qed

text \<open>
  Claim C4, as the code has it. For every task whose normalized result is Failure the
  call returns no error; the task's status is Failure, its progress is 100% (or the
  result's own progress string when that is not empty), its finish time is set if it was
  unset, its fail reason is the result's reason, and its quota is unchanged. If the quota
  is not zero the ledger is asked to credit the user with exactly that quota and one
  system log entry is written (also when the credit call fails); if the quota is zero
  the ledger is not called at all. The task is then persisted.
\<close>

theorem C4_failure_refund:
  assumes "ti_Status r = TaskStatusFailure"
  shows "case applyTaskResult e taskId t r of
      (err, t', effs) \<Rightarrow>
        err = None \<and> Status t' = TaskStatusFailure \<and>
        Progress t' = (if ti_Progress r \<noteq> [] then ti_Progress r else ''100%'') \<and>
        FinishTime t' = (if FinishTime t = 0 then time_Now e else FinishTime t) \<and>
        FailReason t' = ti_Reason r \<and>
        Quota t' = Quota t \<and>
        filter is_ledger effs =
          (if Quota t \<noteq> 0 then
             [IncreaseUserQuota (UserId t) (Quota t) False (IncreaseUserQuota_ok e),
              RecordLog (UserId t) LogTypeSystem (FailRefundContent (TaskID t) (Quota t))]
           else []) \<and>
        filter (\<lambda>ef. \<not> is_ledger ef) effs = [Task_Update t' (Update_ok e)]"
  unfolding applyTaskResult_Failure[OF assms] by (simp add: Let_def)

theorem C4_failure_refund_witness:
  "ti_Status failure_result = TaskStatusFailure \<and>
   (case applyTaskResult env0 ''cgt-1'' (task0\<lparr>Quota := 100\<rparr>) failure_result of
      (err, t', effs) \<Rightarrow>
        err = None \<and> Progress t' = ''100%'' \<and> FinishTime t' = 1700000100 \<and>
        FailReason t' = ''rate_limited: slow down'' \<and> Quota t' = 100 \<and>
        filter is_ledger effs =
          [IncreaseUserQuota 7 100 False True,
           RecordLog 7 LogTypeSystem (FailRefundContent ''cgt-1'' 100)])"
proof -
  have h: "ti_Status failure_result = TaskStatusFailure" by (simp add: failure_result_def)
  have v: "ti_Progress failure_result = ''100%''" "ti_Reason failure_result = ''rate_limited: slow down''"
    "time_Now env0 = 1700000100" "IncreaseUserQuota_ok env0"
    "FinishTime (task0\<lparr>Quota := 100\<rparr>) = 0" "UserId (task0\<lparr>Quota := 100\<rparr>) = 7"
    "TaskID (task0\<lparr>Quota := 100\<rparr>) = ''cgt-1''" "Quota (task0\<lparr>Quota := 100\<rparr>) = 100"
    by (simp_all add: failure_result_def env0_def task0_def)
  show ?thesis
    using C4_failure_refund[OF h, where e = env0 and taskId = "''cgt-1''" and t = "task0\<lparr>Quota := 100\<rparr>"] h
    using v by (auto split: prod.splits)
qed

text \<open>
  Claim C4 as stated fails for a task with quota 0: no credit and no log entry are
  written; and a Failure result that carries progress 50% leaves progress 50%.
\<close>

theorem C4_zero_quota_counterexample:
  "ti_Status failure_result = TaskStatusFailure \<and> Quota free_task = 0 \<and>
   fst (applyTaskResult env0 ''cgt-1'' free_task failure_result) = None \<and>
   filter is_ledger (snd (snd (applyTaskResult env0 ''cgt-1'' free_task failure_result))) = [] \<and>
   ti_Status (failure_result\<lparr>ti_Progress := ''50%''\<rparr>) = TaskStatusFailure \<and>
   Progress (fst (snd (applyTaskResult env0 ''cgt-1'' task0
                         (failure_result\<lparr>ti_Progress := ''50%''\<rparr>)))) = ''50%''"
  by code_simp






text \<open>
  Claim C7. Whenever an update goes through and the result carries a non-empty progress
  string, the persisted task has that string as progress. In particular a vendor body
  whose status lowers to \<^verbatim>\<open>running\<close> (no error code, not the gateway's own envelope) is
  persisted with status InProgress and progress 60%, not 30%.
\<close>

theorem C7_progress_override:
  "(\<forall>t' effs. applyTaskResult e taskId t r = (None, t', effs) \<and> ti_Progress r \<noteq> [] \<longrightarrow>
      Progress t' = ti_Progress r \<and>
      (\<exists>ledger. effs = ledger @ [Task_Update t' (Update_ok e)])) \<and>
   (taskM taskId = Some t \<and>
    fetch (if ch_BaseURL ch \<noteq> [] then ch_BaseURL ch else ChannelBaseURLs e (ch_Type ch))
      (ch_Key ch) taskId (Action t) = Body body \<and>
    decodeEnvelope e body = None \<and> json_Unmarshal L body = Some fr \<and>
    fr_Error_Code fr = [] \<and> ToLower (unicode_ToLower L) (fr_Status fr) = ''running'' \<longrightarrow>
      (\<exists>t'. updateVideoSingleTask (volc_adaptor L fetch) e ch taskId taskM =
               (None, taskM(taskId \<mapsto> t'), [Task_Update t' (Update_ok e)]) \<and>
            Status t' = TaskStatusInProgress \<and> Progress t' = ''60%'' \<and>
            Progress t' \<noteq> ''30%''))"
proof -
  have g: "Progress t' = ti_Progress r \<and> (\<exists>ledger. effs = ledger @ [Task_Update t' (Update_ok e)])"
    if "applyTaskResult e taskId t r = (None, t', effs) \<and> ti_Progress r \<noteq> []" for t' effs
    using that applyTaskResult_Progress applyTaskResult_persisted by blast
  have p: "\<exists>t'. updateVideoSingleTask (volc_adaptor L fetch) e ch taskId taskM =
               (None, taskM(taskId \<mapsto> t'), [Task_Update t' (Update_ok e)]) \<and>
            Status t' = TaskStatusInProgress \<and> Progress t' = ''60%'' \<and>
            Progress t' \<noteq> ''30%''"
    if h: "taskM taskId = Some t"
      "fetch (if ch_BaseURL ch \<noteq> [] then ch_BaseURL ch else ChannelBaseURLs e (ch_Type ch))
        (ch_Key ch) taskId (Action t) = Body body"
      "decodeEnvelope e body = None" "json_Unmarshal L body = Some fr"
      "fr_Error_Code fr = []" "ToLower (unicode_ToLower L) (fr_Status fr) = ''running''"
  proof -
    let ?r = "TaskInfo_zero\<lparr>ti_TaskID := fr_ID fr, ti_Status := TaskStatusInProgress,
                   ti_Progress := ''60%''\<rparr>"
    have pr: "ParseTaskResult L body = Some ?r"
      using h(4) parse_running[OF h(5) h(6)] by (simp add: ParseTaskResult_def)
    have st: "ti_Status ?r = TaskStatusInProgress" by simp
    define t1 where "t1 = t\<lparr>Data := body, Status := TaskStatusInProgress, Progress := ''60%'',
        StartTime := (if StartTime t = 0 then time_Now e else StartTime t)\<rparr>"
    have ap: "applyTaskResult e taskId (t\<lparr>Data := body\<rparr>) ?r = (None, t1, [Task_Update t1 (Update_ok e)])"
      unfolding applyTaskResult_InProgress[OF st] by (simp add: Let_def t1_def)
    have "updateVideoSingleTask (volc_adaptor L fetch) e ch taskId taskM =
               (None, taskM(taskId \<mapsto> t1), [Task_Update t1 (Update_ok e)])"
      using h(1,2,3) pr ap by (simp add: updateVideoSingleTask_def volc_adaptor_def Let_def)
    moreover have "Status t1 = TaskStatusInProgress \<and> Progress t1 = ''60%'' \<and> Progress t1 \<noteq> ''30%''"
      by (simp add: t1_def)
    ultimately show ?thesis by blast
  qed
  show ?thesis using g p by blast
qed



theorem C7_progress_override_witness:
  "ti_Progress inprogress45 \<noteq> [] \<and>
   fst (applyTaskResult env0 ''cgt-1'' task0 inprogress45) = None \<and>
   Progress (fst (snd (applyTaskResult env0 ''cgt-1'' task0 inprogress45))) = ''45%'' \<and>
   fr_Error_Code fr_running = [] \<and> fr_Status fr_running = ''RUNNING'' \<and>
   ToLower (unicode_ToLower (lib_of fr_running)) (fr_Status fr_running) = ''running'' \<and>
   (case updateVideoSingleTask (volc_adaptor (lib_of fr_running) fetch_body) env0 channel0
           ''cgt-1'' [''cgt-1'' \<mapsto> task0] of
      (err, taskM, effs) \<Rightarrow>
        err = None \<and> map_option Progress (taskM ''cgt-1'') = Some ''60%'' \<and>
        map_option Status (taskM ''cgt-1'') = Some TaskStatusInProgress)"
proof -
  have st: "ti_Status inprogress45 = TaskStatusInProgress" by (simp add: inprogress45_def)
  have pg: "ti_Progress inprogress45 \<noteq> []" "ti_Progress inprogress45 = ''45%''"
    by (simp_all add: inprogress45_def)
  obtain t' effs where ap: "applyTaskResult env0 ''cgt-1'' task0 inprogress45 = (None, t', effs)"
    unfolding applyTaskResult_InProgress[OF st] by (simp add: Let_def)
  have a: "Progress t' = ''45%''"
    using C7_progress_override[where e = env0 and taskId = "''cgt-1''" and t = task0 and r = inprogress45,
        THEN conjunct1] ap pg by simp
  have h: "[''cgt-1'' \<mapsto> task0] ''cgt-1'' = Some task0"
    "fetch_body (if ch_BaseURL channel0 \<noteq> [] then ch_BaseURL channel0
                 else ChannelBaseURLs env0 (ch_Type channel0))
       (ch_Key channel0) ''cgt-1'' (Action task0) = Body ''body''"
    "decodeEnvelope env0 ''body'' = None"
    "json_Unmarshal (lib_of fr_running) ''body'' = Some fr_running"
    by (simp_all add: fetch_body_def env0_def lib_of_def)
  have k: "fr_Error_Code fr_running = []" "fr_Status fr_running = ''RUNNING''"
    "ToLower (unicode_ToLower (lib_of fr_running)) (fr_Status fr_running) = ''running''"
    by code_simp+
  obtain t'' where b: "updateVideoSingleTask (volc_adaptor (lib_of fr_running) fetch_body) env0
       channel0 ''cgt-1'' [''cgt-1'' \<mapsto> task0] =
        (None, [''cgt-1'' \<mapsto> task0](''cgt-1'' \<mapsto> t''), [Task_Update t'' (Update_ok env0)])"
     "Status t'' = TaskStatusInProgress" "Progress t'' = ''60%''"
    using C7_progress_override[where e = env0 and taskId = "''cgt-1''" and t = task0 and ch = channel0
        and taskM = "[''cgt-1'' \<mapsto> task0]" and fetch = fetch_body and body = "''body''"
        and L = "lib_of fr_running" and fr = fr_running, THEN conjunct2] h k
    by blast
  show ?thesis
    using pg(1) k a by (simp add: ap b)
qed

section \<open>The channel lookup failure\<close>

lemma store_apply_bulk:
  "store_apply (TaskBulkUpdate ids fail_reason status progress ok) t =
     (if ok \<and> TaskID t \<in> set ids then
        t\<lparr>FailReason := fail_reason, Status := status, Progress := progress\<rparr>
      else t)"
  by simp

lemma updateVideoTaskAll_channel_down:
  assumes "taskIds \<noteq> []" "CacheGetChannel C channelId = None"
  shows "updateVideoTaskAll C platform channelId taskIds taskM =
     (Some CacheGetChannelFailed, taskM,
      [TaskBulkUpdate taskIds (channel_fail_reason channelId) ''FAILURE'' ''100%''
         (TaskBulkUpdate_ok C)], [])"
  using assms by (simp add: updateVideoTaskAll_def)

text \<open>
  Claim C9. When the channel lookup fails for a non-empty batch, the call returns the
  lookup error, leaves the task objects alone and makes one call only: a bulk update of
  the batch's ids with the diagnostic fail reason, status \<^verbatim>\<open>FAILURE\<close> and progress 100%. No
  ledger call is made. A stored task of the batch gets these three columns (when the
  bulk update succeeds) and nothing else: finish time, start time and quota stay as they
  were. The per-task Failure transition, by contrast, sets the finish time of such a
  task and asks the ledger to refund its non-zero quota.
\<close>

theorem C9_channel_down_frame:
  assumes "taskIds \<noteq> []" and "CacheGetChannel C channelId = None"
  shows "case updateVideoTaskAll C platform channelId taskIds taskM of
      (err, taskM', effs, errs) \<Rightarrow>
        err = Some CacheGetChannelFailed \<and> taskM' = taskM \<and>
        effs = [TaskBulkUpdate taskIds (channel_fail_reason channelId) TaskStatusFailure ''100%''
                  (TaskBulkUpdate_ok C)] \<and>
        filter is_ledger effs = [] \<and>
        (\<forall>t. persist effs t =
               (if TaskBulkUpdate_ok C \<and> TaskID t \<in> set taskIds then
                  t\<lparr>FailReason := channel_fail_reason channelId, Status := TaskStatusFailure,
                    Progress := ''100%''\<rparr>
                else t) \<and>
             FinishTime (persist effs t) = FinishTime t \<and>
             StartTime (persist effs t) = StartTime t \<and>
             Quota (persist effs t) = Quota t) \<and>
        (\<forall>e taskId t r.
           ti_Status r = TaskStatusFailure \<and> FinishTime t = 0 \<and> Quota t \<noteq> 0 \<longrightarrow>
             (case applyTaskResult e taskId t r of
                (err1, t1, effs1) \<Rightarrow>
                  FinishTime t1 = time_Now e \<and> Quota t1 = Quota t \<and>
                  IncreaseUserQuota (UserId t) (Quota t) False (IncreaseUserQuota_ok e)
                    \<in> set effs1))"
proof -
  have per_task: "case applyTaskResult e taskId t r of
                (err1, t1, effs1) \<Rightarrow>
                  FinishTime t1 = time_Now e \<and> Quota t1 = Quota t \<and>
                  IncreaseUserQuota (UserId t) (Quota t) False (IncreaseUserQuota_ok e)
                    \<in> set effs1"
    if "ti_Status r = TaskStatusFailure \<and> FinishTime t = 0 \<and> Quota t \<noteq> 0"
    for e taskId t r
    using that by (simp add: applyTaskResult_Failure Let_def)
  show ?thesis
    unfolding updateVideoTaskAll_channel_down[OF assms]
    using per_task by (simp add: persist_def TaskStatusFailure_def)
qed


theorem C9_channel_down_frame_witness:
  "[''cgt-1'', ''cgt-2''] \<noteq> [] \<and> CacheGetChannel chan_env_down 3 = None \<and>
   (case updateVideoTaskAll chan_env_down ''volcvideo'' 3 [''cgt-1'', ''cgt-2''] taskM0 of
      (err, taskM', effs, errs) \<Rightarrow>
        err = Some CacheGetChannelFailed \<and>
        effs = [TaskBulkUpdate [''cgt-1'', ''cgt-2''] ''Failed to get channel info, channel ID: 3''
                  ''FAILURE'' ''100%'' True] \<and>
        Status (persist effs task2) = ''FAILURE'' \<and> Progress (persist effs task2) = ''100%'' \<and>
        FinishTime (persist effs task2) = 0 \<and> Quota (persist effs task2) = 50) \<and>
   ti_Status failure_result = TaskStatusFailure \<and> FinishTime task2 = 0 \<and> Quota task2 \<noteq> 0 \<and>
   (case applyTaskResult env0 ''cgt-2'' task2 failure_result of
      (err1, t1, effs1) \<Rightarrow>
        FinishTime t1 = 1700000100 \<and> IncreaseUserQuota 7 50 False True \<in> set effs1)"
proof -
  have h: "[''cgt-1'', ''cgt-2''] \<noteq> []" "CacheGetChannel chan_env_down 3 = None"
    by (simp_all add: chan_env_down_def)
  have v: "TaskBulkUpdate_ok chan_env_down" "TaskID task2 = ''cgt-2''" "FinishTime task2 = 0"
    "Quota task2 = 50"
    by (simp_all add: chan_env_down_def chan_env0_def task2_def task0_def)
  have m: "channel_fail_reason 3 = ''Failed to get channel info, channel ID: 3''"
    by code_simp
  have c: "ti_Status failure_result = TaskStatusFailure" "UserId task2 = 7"
    "time_Now env0 = 1700000100" "IncreaseUserQuota_ok env0"
    by (simp_all add: failure_result_def task2_def task0_def env0_def)
  note T = C9_channel_down_frame[OF h, where platform = "''volcvideo''" and taskM = taskM0,
      unfolded updateVideoTaskAll_channel_down[OF h] prod.case]
  have P: "persist [TaskBulkUpdate [''cgt-1'', ''cgt-2''] (channel_fail_reason 3)
                      ''FAILURE'' ''100%'' (TaskBulkUpdate_ok chan_env_down)] task2 =
      (if TaskBulkUpdate_ok chan_env_down \<and> TaskID task2 \<in> set [''cgt-1'', ''cgt-2''] then
         task2\<lparr>FailReason := channel_fail_reason 3, Status := TaskStatusFailure,
               Progress := ''100%''\<rparr>
       else task2)"
    using T by blast
  have bulk: "case updateVideoTaskAll chan_env_down ''volcvideo'' 3 [''cgt-1'', ''cgt-2''] taskM0 of
      (err, taskM', effs, errs) \<Rightarrow>
        err = Some CacheGetChannelFailed \<and>
        effs = [TaskBulkUpdate [''cgt-1'', ''cgt-2''] ''Failed to get channel info, channel ID: 3''
                  ''FAILURE'' ''100%'' True] \<and>
        Status (persist effs task2) = ''FAILURE'' \<and> Progress (persist effs task2) = ''100%'' \<and>
        FinishTime (persist effs task2) = 0 \<and> Quota (persist effs task2) = 50"
    unfolding updateVideoTaskAll_channel_down[OF h] prod.case
    using P v m by (simp add: TaskStatusFailure_def)
  have Q: "\<forall>e taskId t r.
           ti_Status r = TaskStatusFailure \<and> FinishTime t = 0 \<and> Quota t \<noteq> 0 \<longrightarrow>
             (case applyTaskResult e taskId t r of
                (err1, t1, effs1) \<Rightarrow>
                  FinishTime t1 = time_Now e \<and> Quota t1 = Quota t \<and>
                  IncreaseUserQuota (UserId t) (Quota t) False (IncreaseUserQuota_ok e)
                    \<in> set effs1)"
    by (rule T[THEN conjunct2, THEN conjunct2, THEN conjunct2, THEN conjunct2, THEN conjunct2])
  have per: "case applyTaskResult env0 ''cgt-2'' task2 failure_result of
      (err1, t1, effs1) \<Rightarrow>
        FinishTime t1 = 1700000100 \<and> IncreaseUserQuota 7 50 False True \<in> set effs1"
    using Q[rule_format, of failure_result task2 env0 "''cgt-2''"] c v
    by (auto split: prod.splits)
  show ?thesis using h bulk c(1) v per by simp
qed


section \<open>Settlement run twice\<close>

lemma settle_fst: "fst (settle e t r) = t\<lparr>Quota := actualQuota e t r\<rparr>"
  by (simp add: settle_def Let_def)

lemma settle_snd_zero: "actualQuota e t r = Quota t \<Longrightarrow> snd (settle e t r) = []"
  by (simp add: settle_def Let_def)

lemma settle_debit_fails:
  assumes "actualQuota e t r > Quota t" "\<not> DecreaseUserQuota_ok e"
  shows "snd (settle e t r) = [DecreaseUserQuota (UserId t) (actualQuota e t r - Quota t) False]"
  using assms by (simp add: settle_def Let_def)

lemma actualQuota_same_rates:
  assumes "same_rates e e2" "ModelName t2 = ModelName t" "Data t2 = Data t" "Group t2 = Group t"
  shows "actualQuota e2 t2 r = actualQuota e t r"
proof -
  have j: "json_model e2 = json_model e" and m: "GetModelRatio e2 = GetModelRatio e"
    and c: "GetCompletionRatio e2 = GetCompletionRatio e"
    and g: "GetGroupRatio e2 = GetGroupRatio e"
    using assms(1) by (simp_all add: same_rates_def)
  have n: "resolveModelName e2 t2 r = resolveModelName e t r"
    using resolveModelName_env[OF j, of t2 r] resolveModelName_cong[OF assms(2,3), of e r]
    by simp
  show ?thesis
    unfolding actualQuota_def n modelRatio_of_def completionRatio_of_def groupRatio_of_def
      m c g assms(4) by (rule refl)
qed

text \<open>The task a Success transition with usage leaves, and its trace.\<close>

lemma applyTaskResult_Success_settled:
  assumes "ti_Status r = TaskStatusSuccess" "ti_TotalTokens r > 0"
  shows "applyTaskResult e taskId t r =
    (let t1 = t\<lparr>Status := TaskStatusSuccess, Progress := ''100%'',
                  FinishTime := (if FinishTime t = 0 then time_Now e else FinishTime t),
                  FailReason := ti_Url r\<rparr>;
         t3 = t1\<lparr>Quota := actualQuota e t r,
                  Progress := (if ti_Progress r \<noteq> [] then ti_Progress r else ''100%'')\<rparr>
     in (None, t3, snd (settle e t1 r) @ [Task_Update t3 (Update_ok e)]))"
proof -
  define t1 where "t1 = t\<lparr>Status := TaskStatusSuccess, Progress := ''100%'',
                  FinishTime := (if FinishTime t = 0 then time_Now e else FinishTime t),
                  FailReason := ti_Url r\<rparr>"
  have aq: "actualQuota e t1 r = actualQuota e t r"
    by (rule actualQuota_cong) (simp_all add: t1_def)
  have s: "settle e t1 r = (t1\<lparr>Quota := actualQuota e t r\<rparr>, snd (settle e t1 r))"
    using settle_fst[of e t1 r] aq by (cases "settle e t1 r") simp
  show ?thesis
    unfolding applyTaskResult_Success[OF assms] Let_def t1_def[symmetric]
    by (subst s) (simp add: t1_def)
qed

lemma second_run_no_ledger:
  assumes st: "ti_Status r = TaskStatusSuccess" and tok: "ti_TotalTokens r > 0"
    and sr: "same_rates e e2"
    and ap: "applyTaskResult e taskId t r = (err1, t1, effs1)"
  shows "err1 = None \<and> Quota t1 = actualQuota e t r \<and>
    (case applyTaskResult e2 taskId t1 r of
       (err2, t2, effs2) \<Rightarrow>
         err2 = None \<and> actualQuota e2 t1 r - Quota t1 = 0 \<and> filter is_ledger effs2 = [] \<and>
         Quota t2 = Quota t1)"
proof -
  have t1: "err1 = None" "Quota t1 = actualQuota e t r" "ModelName t1 = ModelName t"
    "Data t1 = Data t" "Group t1 = Group t"
    using ap unfolding applyTaskResult_Success_settled[OF st tok] by (auto simp: Let_def)
  have aq2: "actualQuota e2 t1 r = actualQuota e t r"
    using actualQuota_same_rates[OF sr t1(3,4,5)] .
  define u where "u = t1\<lparr>Status := TaskStatusSuccess, Progress := ''100%'',
                  FinishTime := (if FinishTime t1 = 0 then time_Now e2 else FinishTime t1),
                  FailReason := ti_Url r\<rparr>"
  have "actualQuota e2 u r = actualQuota e2 t1 r"
    by (rule actualQuota_cong) (simp_all add: u_def)
  then have "actualQuota e2 u r = Quota u" using aq2 t1(2) by (simp add: u_def)
  then have z: "snd (settle e2 u r) = []" by (rule settle_snd_zero)
  show ?thesis
    unfolding applyTaskResult_Success_settled[OF st tok, of e2 taskId t1] Let_def
      u_def[symmetric] z
    using t1(1,2) aq2 by simp
qed

text \<open>
  Claim C5. After a Success transition with usage tokens above zero the task's quota
  equals \<open>actualQuota\<close>; a second run on the task so left, with the same result and an
  environment that gives the same rates, computes the delta 0, makes no ledger call (no
  debit, no credit, no consumption entry) and leaves the quota as it is.
\<close>

theorem C5_settlement_idempotent:
  assumes "ti_Status r = TaskStatusSuccess" and "ti_TotalTokens r > 0" and "same_rates e e2"
  shows "case applyTaskResult e taskId t r of
      (err1, t1, effs1) \<Rightarrow>
        err1 = None \<and> Quota t1 = actualQuota e t r \<and>
        (case applyTaskResult e2 taskId t1 r of
           (err2, t2, effs2) \<Rightarrow>
             err2 = None \<and> actualQuota e2 t1 r - Quota t1 = 0 \<and>
             filter is_ledger effs2 = [] \<and> Quota t2 = Quota t1)"
proof (cases "applyTaskResult e taskId t r")
  case (fields err1 t1 effs1)
  show ?thesis
    unfolding fields using second_run_no_ledger[OF assms fields]
    by (auto split: prod.splits)
qed

theorem C5_settlement_idempotent_witness:
  "ti_Status success80 = TaskStatusSuccess \<and> ti_TotalTokens success80 > 0 \<and>
   same_rates env0 env0 \<and>
   Quota (fst (snd (applyTaskResult env0 ''cgt-1'' task0 success80))) = 80 \<and>
   filter is_ledger (snd (snd (applyTaskResult env0 ''cgt-1''
       (fst (snd (applyTaskResult env0 ''cgt-1'' task0 success80))) success80))) = [] \<and>
   Quota (fst (snd (applyTaskResult env0 ''cgt-1''
       (fst (snd (applyTaskResult env0 ''cgt-1'' task0 success80))) success80))) = 80"
proof -
  have h: "ti_Status success80 = TaskStatusSuccess" "ti_TotalTokens success80 > 0"
    "same_rates env0 env0"
    by (simp_all add: success80_def same_rates_def)
  have a: "actualQuota env0 task0 success80 = 80" by code_simp
  show ?thesis
    using C5_settlement_idempotent[OF h, where taskId = "''cgt-1''" and t = task0] h a
    by (auto split: prod.splits)
qed

text \<open>
  Claim C10. On a supplement (delta above zero) whose debit call fails, the only ledger
  call is the failed debit (no consumption entry), and the task's quota is rewritten to
  \<open>actualQuota\<close> all the same. The next poll with the same usage and rates therefore
  computes the delta 0 and makes no ledger call, also when the ledger would now accept
  the debit: the shortfall is not collected.
\<close>

theorem C10_failed_debit_rewrites_quota:
  assumes "ti_Status r = TaskStatusSuccess" and "ti_TotalTokens r > 0"
    and "actualQuota e t r - Quota t > 0" and "\<not> DecreaseUserQuota_ok e"
    and "same_rates e e2"
  shows "case applyTaskResult e taskId t r of
      (err1, t1, effs1) \<Rightarrow>
        err1 = None \<and> Quota t1 = actualQuota e t r \<and>
        filter is_ledger effs1 =
          [DecreaseUserQuota (UserId t) (actualQuota e t r - Quota t) False] \<and>
        (case applyTaskResult e2 taskId t1 r of
           (err2, t2, effs2) \<Rightarrow>
             err2 = None \<and> actualQuota e2 t1 r - Quota t1 = 0 \<and>
             filter is_ledger effs2 = [] \<and> Quota t2 = actualQuota e t r)"
proof (cases "applyTaskResult e taskId t r")
  case (fields err1 t1 effs1)
  define u where "u = t\<lparr>Status := TaskStatusSuccess, Progress := ''100%'',
                  FinishTime := (if FinishTime t = 0 then time_Now e else FinishTime t),
                  FailReason := ti_Url r\<rparr>"
  have "actualQuota e u r = actualQuota e t r"
    by (rule actualQuota_cong) (simp_all add: u_def)
  then have "actualQuota e u r > Quota u" using assms(3) by (simp add: u_def)
  then have d: "snd (settle e u r) =
      [DecreaseUserQuota (UserId u) (actualQuota e u r - Quota u) False]"
    using assms(4) by (rule settle_debit_fails)
  have d': "snd (settle e u r) =
      [DecreaseUserQuota (UserId t) (actualQuota e t r - Quota t) False]"
    unfolding d using \<open>actualQuota e u r = actualQuota e t r\<close> by (simp add: u_def)
  have l: "filter is_ledger effs1 =
          [DecreaseUserQuota (UserId t) (actualQuota e t r - Quota t) False]"
    using fields unfolding applyTaskResult_Success_settled[OF assms(1,2)] Let_def
      u_def[symmetric] d' by auto
  show ?thesis
    unfolding fields using second_run_no_ledger[OF assms(1,2,5) fields] l
    by (auto split: prod.splits)
qed


theorem C10_failed_debit_rewrites_quota_witness:
  "ti_Status success80 = TaskStatusSuccess \<and> ti_TotalTokens success80 > 0 \<and>
   actualQuota debit_fails_env task0 success80 - Quota task0 = 30 \<and>
   \<not> DecreaseUserQuota_ok debit_fails_env \<and> same_rates debit_fails_env env0 \<and>
   DecreaseUserQuota_ok env0 \<and>
   Quota (fst (snd (applyTaskResult debit_fails_env ''cgt-1'' task0 success80))) = 80 \<and>
   filter is_ledger (snd (snd (applyTaskResult debit_fails_env ''cgt-1'' task0 success80)))
     = [DecreaseUserQuota 7 30 False] \<and>
   filter is_ledger (snd (snd (applyTaskResult env0 ''cgt-1''
       (fst (snd (applyTaskResult debit_fails_env ''cgt-1'' task0 success80))) success80))) = []"
proof -
  have h: "ti_Status success80 = TaskStatusSuccess" "ti_TotalTokens success80 > 0"
    by (simp_all add: success80_def)
  have a: "actualQuota debit_fails_env task0 success80 = 80" "Quota task0 = 50" "UserId task0 = 7"
    by code_simp+
  have d: "actualQuota debit_fails_env task0 success80 - Quota task0 > 0" using a by simp
  have n: "\<not> DecreaseUserQuota_ok debit_fails_env" "DecreaseUserQuota_ok env0"
    by (simp_all add: debit_fails_env_def env0_def)
  have s: "same_rates debit_fails_env env0"
    by (simp add: same_rates_def debit_fails_env_def)
  show ?thesis
    using C10_failed_debit_rewrites_quota[OF h d n(1) s, where taskId = "''cgt-1''"] h a n s
    by (auto split: prod.splits)
qed

section \<open>Timestamps over sequences of passes\<close>

lemma settle_ledger: "list_all is_ledger (snd (settle e t r))"
  by (simp add: settle_def supplementLog_def Let_def)

lemma persist_ledger: "list_all is_ledger effs \<Longrightarrow> persist effs t = t"
proof (induction effs)
  case Nil
  then show ?case by simp
next
  case (Cons ef effs)
  then have "store_apply ef t = t" by (cases ef) simp_all
  with Cons show ?case by (simp add: persist_def)
qed

lemma persist_single: "persist [ef] t = store_apply ef t"
  by (simp add: persist_def)

lemma persist_append: "persist (xs @ ys) t = persist ys (persist xs t)"
  by (simp add: persist_def)

lemma statusSwitch_frame:
  assumes "statusSwitch e u r = Some (t2, effs)"
  shows "TaskID t2 = TaskID u \<and> list_all is_ledger effs \<and>
    FinishTime t2 =
      (if (ti_Status r = TaskStatusSuccess \<or> ti_Status r = TaskStatusFailure) \<and> FinishTime u = 0
       then time_Now e else FinishTime u) \<and>
    StartTime t2 =
      (if ti_Status r = TaskStatusInProgress \<and> StartTime u = 0 then time_Now e else StartTime u) \<and>
    Status t2 = (if ti_Status r = TaskStatusFailure then TaskStatusFailure else Status u)"
proof -
  consider (sub) "ti_Status r = TaskStatusSubmitted"
    | (que) "ti_Status r = TaskStatusQueued"
    | (inp) "ti_Status r = TaskStatusInProgress"
    | (suc) "ti_Status r = TaskStatusSuccess"
    | (fai) "ti_Status r = TaskStatusFailure"
    | (oth) "ti_Status r \<noteq> TaskStatusSubmitted" "ti_Status r \<noteq> TaskStatusQueued"
        "ti_Status r \<noteq> TaskStatusInProgress" "ti_Status r \<noteq> TaskStatusSuccess"
        "ti_Status r \<noteq> TaskStatusFailure"
    by blast
  then show ?thesis
  proof cases
    case sub
    then show ?thesis using assms by (auto simp: statusSwitch_def Let_def TaskStatus_defs)
  next
    case que
    then show ?thesis using assms by (auto simp: statusSwitch_def Let_def TaskStatus_defs)
  next
    case inp
    then show ?thesis using assms by (auto simp: statusSwitch_def Let_def TaskStatus_defs)
  next
    case suc
    let ?u1 = "u\<lparr>Progress := ''100%'',
                  FinishTime := (if FinishTime u = 0 then time_Now e else FinishTime u),
                  FailReason := ti_Url r\<rparr>"
    show ?thesis
    proof (cases "ti_TotalTokens r > 0")
      case True
      then have "settle e ?u1 r = (t2, effs)"
        using assms suc by (simp add: statusSwitch_def Let_def)
      then have "t2 = fst (settle e ?u1 r)" "effs = snd (settle e ?u1 r)" by simp_all
      then show ?thesis using suc settle_ledger[of e ?u1 r]
        by (simp add: settle_fst TaskStatus_defs)
    next
      case False
      then show ?thesis using assms suc by (auto simp: statusSwitch_def Let_def TaskStatus_defs)
    qed
  next
    case fai
    then show ?thesis using assms
      by (auto simp: statusSwitch_def Let_def TaskStatus_defs split: if_splits)
  next
    case oth
    then show ?thesis using assms by (simp add: statusSwitch_def Let_def)
  qed
qed

text \<open>What one call of applyTaskResult stores, seen from the stored record t.\<close>

lemma applyTaskResult_stored:
  assumes k: "TaskID u = TaskID t" "FinishTime u = FinishTime t" "StartTime u = StartTime t"
    and ap: "applyTaskResult e tid u r = (err, t', effs)"
  shows "persist effs t = (if err = None \<and> Update_ok e then t' else t)"
    and "err = None \<Longrightarrow>
      FinishTime t' =
        (if (Status t' = TaskStatusSuccess \<or> Status t' = TaskStatusFailure) \<and> FinishTime t = 0
         then time_Now e else FinishTime t) \<and>
      StartTime t' =
        (if Status t' = TaskStatusInProgress \<and> StartTime t = 0 then time_Now e else StartTime t)"
proof -
  show "persist effs t = (if err = None \<and> Update_ok e then t' else t)"
  proof (cases "ti_Status r = []")
    case True
    then show ?thesis using ap by (auto simp: applyTaskResult_def)
  next
    case ne: False
    show ?thesis
    proof (cases "statusSwitch e (u\<lparr>Status := ti_Status r\<rparr>) r")
      case None
      then show ?thesis using ap ne by (auto simp: applyTaskResult_def Let_def)
    next
      case (Some pr)
      obtain t2 l where pr: "pr = (t2, l)" by (cases pr)
      note fr = statusSwitch_frame[OF Some[unfolded pr]]
      have e: "err = None" "effs = l @ [Task_Update t' (Update_ok e)]" "TaskID t' = TaskID t2"
        using ap ne Some pr by (auto simp: applyTaskResult_def Let_def)
      have "TaskID t' = TaskID t" using e(3) fr k(1) by simp
      then show ?thesis
        using e fr by (simp add: persist_append persist_ledger persist_single)
    qed
  qed
next
  assume en: "err = None"
  have ne: "ti_Status r \<noteq> []" using ap en by (auto simp: applyTaskResult_def)
  obtain t2 l where sw: "statusSwitch e (u\<lparr>Status := ti_Status r\<rparr>) r = Some (t2, l)"
    using ap en ne by (cases "statusSwitch e (u\<lparr>Status := ti_Status r\<rparr>) r")
      (auto simp: applyTaskResult_def Let_def)
  note fr = statusSwitch_frame[OF sw]
  have t': "FinishTime t' = FinishTime t2" "StartTime t' = StartTime t2" "Status t' = Status t2"
    using ap ne sw by (auto simp: applyTaskResult_def Let_def)
  have st: "Status t2 = ti_Status r" using fr by simp
  show "FinishTime t' =
        (if (Status t' = TaskStatusSuccess \<or> Status t' = TaskStatusFailure) \<and> FinishTime t = 0
         then time_Now e else FinishTime t) \<and>
      StartTime t' =
        (if Status t' = TaskStatusInProgress \<and> StartTime t = 0 then time_Now e else StartTime t)"
    unfolding t' st using fr k by simp
qed


lemma poll_cases:
  obtains (noop) "pass_effects (Poll A e ch) t = []" "stored_status (Poll A e ch) t = None"
  | (applied) u r err t' effs where
      "TaskID u = TaskID t" "FinishTime u = FinishTime t" "StartTime u = StartTime t"
      "applyTaskResult e (TaskID t) u r = (err, t', effs)"
      "pass_effects (Poll A e ch) t = effs"
      "stored_status (Poll A e ch) t = (if err = None \<and> Update_ok e then Some (Status t') else None)"
proof -
  let ?url = "if ch_BaseURL ch \<noteq> [] then ch_BaseURL ch else ChannelBaseURLs e (ch_Type ch)"
  let ?f = "a_FetchTask A ?url (ch_Key ch) (TaskID t) (Action t)"
  have run: "updateVideoSingleTask A e ch (TaskID t) [TaskID t \<mapsto> t] =
      (case ?f of
         FetchErr \<Rightarrow> (Some (FetchTaskFailed (TaskID t)), [TaskID t \<mapsto> t], [])
       | ReadErr \<Rightarrow> (Some (ReadAllFailed (TaskID t)), [TaskID t \<mapsto> t], [])
       | Body responseBody \<Rightarrow>
           (case decodeEnvelope e responseBody of
              Some x \<Rightarrow>
                (case applyTaskResult e (TaskID t) t (envelopeResult x) of
                   (err, task', effs) \<Rightarrow> (err, [TaskID t \<mapsto> t](TaskID t \<mapsto> task'), effs))
            | None \<Rightarrow>
                (case a_ParseTaskResult A responseBody of
                   None \<Rightarrow> (Some (ParseTaskResultFailed (TaskID t)), [TaskID t \<mapsto> t], [])
                 | Some taskResult \<Rightarrow>
                     (case applyTaskResult e (TaskID t) (t\<lparr>Data := responseBody\<rparr>) taskResult of
                        (err, task', effs) \<Rightarrow>
                          (err, [TaskID t \<mapsto> t](TaskID t \<mapsto> task'), effs)))))"
    by (simp add: updateVideoSingleTask_def Let_def)
  show ?thesis
  proof (cases ?f)
    case FetchErr
    then show ?thesis using run noop by simp
  next
    case ReadErr
    then show ?thesis using run noop by simp
  next
    case (Body b)
    show ?thesis
    proof (cases "decodeEnvelope e b")
      case (Some x)
      obtain err t' effs where ap: "applyTaskResult e (TaskID t) t (envelopeResult x) = (err, t', effs)"
        by (cases "applyTaskResult e (TaskID t) t (envelopeResult x)")
      have r: "updateVideoSingleTask A e ch (TaskID t) [TaskID t \<mapsto> t] =
          (err, [TaskID t \<mapsto> t](TaskID t \<mapsto> t'), effs)"
        using run Body Some ap by simp
      show ?thesis
        by (rule applied[where u = t and r = "envelopeResult x" and err = err and t' = t'
              and effs = effs])
          (use ap r in \<open>auto split: option.splits\<close>)
    next
      case None
      show ?thesis
      proof (cases "a_ParseTaskResult A b")
        case pn: None
        then show ?thesis using run Body None noop by simp
      next
        case (Some taskResult)
        obtain err t' effs where
          ap: "applyTaskResult e (TaskID t) (t\<lparr>Data := b\<rparr>) taskResult = (err, t', effs)"
          by (cases "applyTaskResult e (TaskID t) (t\<lparr>Data := b\<rparr>) taskResult")
        have r: "updateVideoSingleTask A e ch (TaskID t) [TaskID t \<mapsto> t] =
            (err, [TaskID t \<mapsto> t](TaskID t \<mapsto> t'), effs)"
          using run Body None Some ap by simp
        show ?thesis
          by (rule applied[where u = "t\<lparr>Data := b\<rparr>" and r = taskResult and err = err
                and t' = t' and effs = effs])
            (use ap r in \<open>auto split: option.splits\<close>)
      qed
    qed
  qed
qed

lemma pass_step_write_once:
  "(FinishTime t \<noteq> 0 \<longrightarrow> FinishTime (pass_step p t) = FinishTime t) \<and>
   (StartTime t \<noteq> 0 \<longrightarrow> StartTime (pass_step p t) = StartTime t) \<and>
   (FinishTime (pass_step p t) \<noteq> FinishTime t \<longrightarrow>
      terminal (stored_status p t) \<and> pass_clock p = Some (FinishTime (pass_step p t))) \<and>
   (StartTime (pass_step p t) \<noteq> StartTime t \<longrightarrow>
      stored_status p t = Some TaskStatusInProgress \<and>
      pass_clock p = Some (StartTime (pass_step p t))) \<and>
   (terminal (stored_status p t) \<and> (\<exists>c. pass_clock p = Some c \<and> c \<noteq> 0) \<longrightarrow>
      FinishTime (pass_step p t) \<noteq> 0) \<and>
   (stored_status p t = Some TaskStatusInProgress \<and> (\<exists>c. pass_clock p = Some c \<and> c \<noteq> 0) \<longrightarrow>
      StartTime (pass_step p t) \<noteq> 0)"
proof (cases p)
  case (Poll A e ch)
  show ?thesis
  proof (cases rule: poll_cases[of A e ch t])
    case noop
    then show ?thesis by (simp add: Poll pass_step_def terminal_def)
  next
    case (applied u r err t' effs)
    note st = applyTaskResult_stored[OF applied(1,2,3,4)]
    show ?thesis
    proof (cases "err = None \<and> Update_ok e")
      case True
      then have ps: "pass_step p t = t'" "stored_status p t = Some (Status t')"
        using st(1) applied(5,6) by (simp_all add: Poll pass_step_def)
      have ti: "FinishTime t' =
        (if (Status t' = TaskStatusSuccess \<or> Status t' = TaskStatusFailure) \<and> FinishTime t = 0
         then time_Now e else FinishTime t)"
        "StartTime t' =
        (if Status t' = TaskStatusInProgress \<and> StartTime t = 0 then time_Now e else StartTime t)"
        using st(2) True by simp_all
      have ck: "pass_clock p = Some (time_Now e)" by (simp add: Poll)
      show ?thesis
        unfolding ps ck terminal_def using ti by (auto split: if_splits)
    next
      case False
      then have "pass_step p t = t" "stored_status p t = None"
        using st(1) applied(5,6) by (auto simp: Poll pass_step_def)
      then show ?thesis by (simp add: terminal_def)
    qed
  qed
next
  case (ChannelDown C platform channelId taskIds)
  have "pass_step p t = t \<or>
        pass_step p t = t\<lparr>FailReason := channel_fail_reason channelId, Status := ''FAILURE'',
                            Progress := ''100%''\<rparr>"
    by (simp add: ChannelDown pass_step_def updateVideoTaskAll_def persist_single)
  then show ?thesis by (auto simp: ChannelDown TaskStatus_defs)
qed

lemma passes_append: "passes (ps @ qs) t = passes qs (passes ps t)"
  by (induction ps arbitrary: t) simp_all

lemma passes_keep_FinishTime: "FinishTime t \<noteq> 0 \<Longrightarrow> FinishTime (passes ps t) = FinishTime t"
proof (induction ps arbitrary: t)
  case Nil
  then show ?case by simp
next
  case (Cons p ps)
  have "FinishTime (pass_step p t) = FinishTime t"
    using pass_step_write_once[of t p] Cons.prems by simp
  then show ?case using Cons by simp
qed

lemma passes_keep_StartTime: "StartTime t \<noteq> 0 \<Longrightarrow> StartTime (passes ps t) = StartTime t"
proof (induction ps arbitrary: t)
  case Nil
  then show ?case by simp
next
  case (Cons p ps)
  have "StartTime (pass_step p t) = StartTime t"
    using pass_step_write_once[of t p] Cons.prems by simp
  then show ?case using Cons by simp
qed


text \<open>
  Claim C8, as the code has it. Take any sequence of passes on a stored task, split as
  the passes before, one pass \<open>p\<close>, and the passes after. A finish time that is set is
  never overwritten, and neither is a start time. If \<open>p\<close> changes the finish time, then
  it was unset before, \<open>p\<close> is a poll (it has a clock reading, which is the new value)
  that stores a terminal status, no later pass changes it, no earlier pass changed it,
  and no earlier poll with a non-zero clock stored a terminal status: the finish time is
  assigned at most once, by the first poll that stores Success or Failure. That need not
  be the first transition into a terminal status: a failed channel lookup stores
  \<^verbatim>\<open>FAILURE\<close> and assigns no timestamp. The same holds for the start time with the polls
  that store InProgress; no other status assigns it, also not a later one.
\<close>

theorem C8_timestamps_write_once:
  "(let t1 = passes pre t; t2 = pass_step p t1; t3 = passes post t2 in
     (FinishTime t1 \<noteq> 0 \<longrightarrow> FinishTime t3 = FinishTime t1) \<and>
     (StartTime t1 \<noteq> 0 \<longrightarrow> StartTime t3 = StartTime t1) \<and>
     (FinishTime t2 \<noteq> FinishTime t1 \<longrightarrow>
        FinishTime t1 = 0 \<and> terminal (stored_status p t1) \<and>
        pass_clock p = Some (FinishTime t2) \<and> FinishTime t3 = FinishTime t2 \<and>
        (\<forall>qs1 q qs2. pre = qs1 @ q # qs2 \<longrightarrow>
           FinishTime (pass_step q (passes qs1 t)) = FinishTime (passes qs1 t) \<and>
           (\<forall>c. pass_clock q = Some c \<and> c \<noteq> 0 \<longrightarrow>
                \<not> terminal (stored_status q (passes qs1 t))))) \<and>
     (StartTime t2 \<noteq> StartTime t1 \<longrightarrow>
        StartTime t1 = 0 \<and> stored_status p t1 = Some TaskStatusInProgress \<and>
        pass_clock p = Some (StartTime t2) \<and> StartTime t3 = StartTime t2 \<and>
        (\<forall>qs1 q qs2. pre = qs1 @ q # qs2 \<longrightarrow>
           StartTime (pass_step q (passes qs1 t)) = StartTime (passes qs1 t) \<and>
           (\<forall>c. pass_clock q = Some c \<and> c \<noteq> 0 \<longrightarrow>
              stored_status q (passes qs1 t) \<noteq> Some TaskStatusInProgress))) \<and>
     (\<forall>C platform channelId taskIds. p = ChannelDown C platform channelId taskIds \<longrightarrow>
        FinishTime t2 = FinishTime t1 \<and> StartTime t2 = StartTime t1))"
proof -
  define t1 where "t1 = passes pre t"
  define t2 where "t2 = pass_step p t1"
  define t3 where "t3 = passes post t2"
  note w = pass_step_write_once[of t1 p, folded t2_def]
  have keepF: "FinishTime t1 \<noteq> 0 \<longrightarrow> FinishTime t3 = FinishTime t1"
    using w passes_keep_FinishTime[of t2 post] by (auto simp: t3_def)
  have keepS: "StartTime t1 \<noteq> 0 \<longrightarrow> StartTime t3 = StartTime t1"
    using w passes_keep_StartTime[of t2 post] by (auto simp: t3_def)
  have fin: "FinishTime t1 = 0 \<and> terminal (stored_status p t1) \<and>
        pass_clock p = Some (FinishTime t2) \<and> FinishTime t3 = FinishTime t2 \<and>
        (\<forall>qs1 q qs2. pre = qs1 @ q # qs2 \<longrightarrow>
           FinishTime (pass_step q (passes qs1 t)) = FinishTime (passes qs1 t) \<and>
           (\<forall>c. pass_clock q = Some c \<and> c \<noteq> 0 \<longrightarrow>
                \<not> terminal (stored_status q (passes qs1 t))))"
    if ch: "FinishTime t2 \<noteq> FinishTime t1"
  proof -
    have z: "FinishTime t1 = 0" using w ch by auto
    then have nz: "FinishTime t2 \<noteq> 0" using ch by simp
    have l: "FinishTime t3 = FinishTime t2"
      using passes_keep_FinishTime[OF nz, of post] by (simp add: t3_def)
    have earlier: "FinishTime (pass_step q (passes qs1 t)) = FinishTime (passes qs1 t) \<and>
           (\<forall>c. pass_clock q = Some c \<and> c \<noteq> 0 \<longrightarrow>
                \<not> terminal (stored_status q (passes qs1 t)))"
      if d: "pre = qs1 @ q # qs2" for qs1 q qs2
    proof -
      let ?u = "passes qs1 t"
      have t1u: "t1 = passes qs2 (pass_step q ?u)"
        by (simp add: t1_def d passes_append)
      have uz: "FinishTime (pass_step q ?u) = 0"
        using passes_keep_FinishTime[of "pass_step q ?u" qs2] z t1u by auto
      show ?thesis
        using pass_step_write_once[of ?u q] uz by auto
    qed
    show ?thesis using z w ch l earlier by blast
  qed
  have sta: "StartTime t1 = 0 \<and> stored_status p t1 = Some TaskStatusInProgress \<and>
        pass_clock p = Some (StartTime t2) \<and> StartTime t3 = StartTime t2 \<and>
        (\<forall>qs1 q qs2. pre = qs1 @ q # qs2 \<longrightarrow>
           StartTime (pass_step q (passes qs1 t)) = StartTime (passes qs1 t) \<and>
           (\<forall>c. pass_clock q = Some c \<and> c \<noteq> 0 \<longrightarrow>
              stored_status q (passes qs1 t) \<noteq> Some TaskStatusInProgress))"
    if ch: "StartTime t2 \<noteq> StartTime t1"
  proof -
    have z: "StartTime t1 = 0" using w ch by auto
    then have nz: "StartTime t2 \<noteq> 0" using ch by simp
    have l: "StartTime t3 = StartTime t2"
      using passes_keep_StartTime[OF nz, of post] by (simp add: t3_def)
    have earlier: "StartTime (pass_step q (passes qs1 t)) = StartTime (passes qs1 t) \<and>
           (\<forall>c. pass_clock q = Some c \<and> c \<noteq> 0 \<longrightarrow>
              stored_status q (passes qs1 t) \<noteq> Some TaskStatusInProgress)"
      if d: "pre = qs1 @ q # qs2" for qs1 q qs2
    proof -
      let ?u = "passes qs1 t"
      have t1u: "t1 = passes qs2 (pass_step q ?u)"
        by (simp add: t1_def d passes_append)
      have uz: "StartTime (pass_step q ?u) = 0"
        using passes_keep_StartTime[of "pass_step q ?u" qs2] z t1u by auto
      show ?thesis
        using pass_step_write_once[of ?u q] uz by auto
    qed
    show ?thesis using z w ch l earlier by blast
  qed
  have down: "FinishTime t2 = FinishTime t1 \<and> StartTime t2 = StartTime t1"
    if "p = ChannelDown C platform channelId taskIds" for C platform channelId taskIds
    using w that by auto
  show ?thesis
    unfolding Let_def t1_def[symmetric] t2_def[symmetric] t3_def[symmetric]
    using keepF keepS fin sta down by blast
qed

theorem C8_timestamps_write_once_witness:
  "FinishTime (passes [poll_at 1700000050 queued_result, poll_at 1700000100 inprogress45] task0) = 0 \<and>
   FinishTime (pass_step (poll_at 1700000150 failure_result)
     (passes [poll_at 1700000050 queued_result, poll_at 1700000100 inprogress45] task0))
     = 1700000150 \<and>
   terminal (stored_status (poll_at 1700000150 failure_result)
     (passes [poll_at 1700000050 queued_result, poll_at 1700000100 inprogress45] task0)) \<and>
   FinishTime (passes [down_pass, poll_at 1700000200 success80]
     (pass_step (poll_at 1700000150 failure_result)
        (passes [poll_at 1700000050 queued_result, poll_at 1700000100 inprogress45] task0)))
     = 1700000150 \<and>
   StartTime (passes [poll_at 1700000050 queued_result] task0) = 0 \<and>
   StartTime (pass_step (poll_at 1700000100 inprogress45)
     (passes [poll_at 1700000050 queued_result] task0)) = 1700000100 \<and>
   stored_status (poll_at 1700000100 inprogress45)
     (passes [poll_at 1700000050 queued_result] task0) = Some TaskStatusInProgress \<and>
   StartTime (passes [poll_at 1700000150 failure_result, down_pass,
                      poll_at 1700000200 inprogress45]
     (pass_step (poll_at 1700000100 inprogress45)
        (passes [poll_at 1700000050 queued_result] task0))) = 1700000100 \<and>
   FinishTime (pass_step down_pass (passes [poll_at 1700000050 queued_result] task0)) = 0 \<and>
   StartTime (pass_step down_pass (passes [poll_at 1700000050 queued_result] task0)) = 0"
proof -
  let ?q = "poll_at 1700000050 queued_result"
  let ?i = "poll_at 1700000100 inprogress45"
  let ?f = "poll_at 1700000150 failure_result"
  have f1: "FinishTime (passes [?q, ?i] task0) = 0" by code_simp
  have f2: "FinishTime (pass_step ?f (passes [?q, ?i] task0)) = 1700000150" by code_simp
  have s1: "StartTime (passes [?q] task0) = 0" by code_simp
  have s2: "StartTime (pass_step ?i (passes [?q] task0)) = 1700000100" by code_simp
  have fin: "terminal (stored_status ?f (passes [?q, ?i] task0)) \<and>
     FinishTime (passes [down_pass, poll_at 1700000200 success80]
        (pass_step ?f (passes [?q, ?i] task0))) = 1700000150"
    using C8_timestamps_write_once[where pre = "[?q, ?i]" and t = task0 and p = ?f
        and post = "[down_pass, poll_at 1700000200 success80]"] f1 f2
    by (simp add: Let_def)
  have sta: "stored_status ?i (passes [?q] task0) = Some TaskStatusInProgress \<and>
     StartTime (passes [?f, down_pass, poll_at 1700000200 inprogress45]
        (pass_step ?i (passes [?q] task0))) = 1700000100"
    using C8_timestamps_write_once[where pre = "[?q]" and t = task0 and p = ?i
        and post = "[?f, down_pass, poll_at 1700000200 inprogress45]"] s1 s2
    by (simp add: Let_def)
  have f0: "FinishTime (passes [?q] task0) = 0" by code_simp
  have dn: "FinishTime (pass_step down_pass (passes [?q] task0)) = 0 \<and>
     StartTime (pass_step down_pass (passes [?q] task0)) = 0"
    using C8_timestamps_write_once[where pre = "[?q]" and t = task0 and p = down_pass
        and post = "[]"] f0 s1
    by (simp add: Let_def down_pass_def)
  show ?thesis using f1 f2 s1 s2 fin sta dn by blast
qed

text \<open>
  Claim C8 as stated fails. After a failed channel lookup has stored \<^verbatim>\<open>FAILURE\<close> with no
  finish time, a later poll that reports Success assigns the finish time: not on the
  first transition into a terminal status. And after a poll has stored Success with no
  start time, a later poll that reports InProgress assigns the start time: not on the
  first transition into InProgress or later.
\<close>

theorem C8_first_transition_counterexample:
  "stored_status down_pass task0 = Some TaskStatusFailure \<and>
   Status (pass_step down_pass task0) = TaskStatusFailure \<and>
   FinishTime (pass_step down_pass task0) = 0 \<and>
   stored_status (poll_at 1700000200 success80) (pass_step down_pass task0)
     = Some TaskStatusSuccess \<and>
   FinishTime (passes [down_pass, poll_at 1700000200 success80] task0) = 1700000200 \<and>
   stored_status (poll_at 1700000100 success80) task0 = Some TaskStatusSuccess \<and>
   StartTime (pass_step (poll_at 1700000100 success80) task0) = 0 \<and>
   FinishTime (pass_step (poll_at 1700000100 success80) task0) = 1700000100 \<and>
   StartTime (passes [poll_at 1700000100 success80, poll_at 1700000200 inprogress45] task0)
     = 1700000200"
  by code_simp

end
